theory Spec2Isabelle
  imports Complex_Main
begin

section \<open>The robot of \<^verbatim>\<open>src/main/cpp/Robot.cpp\<close>\<close>

text \<open>
  The program is one class, \<^verbatim>\<open>Robot\<close>, with two entry points that the
  scheduler of the robot framework calls: \<^verbatim>\<open>RobotInit\<close>, once, and
  \<^verbatim>\<open>TeleopPeriodic\<close>, once per tick of operator control.

  Conventions of the embedding.
  \<^item> A \<^verbatim>\<open>double\<close> is a value of the type \<open>double\<close> below: binary64, with its
    infinities, its two zeros and a NaN. Each operation of an expression is done on its
    own and rounds its exact result once, to nearest, ties to even; a decimal literal is
    the nearest double; an \<^verbatim>\<open>int\<close> operand is converted first.
  \<^item> An \<^verbatim>\<open>int\<close> is an \<^typ>\<open>int\<close>. The only \<^verbatim>\<open>int\<close> arithmetic of the
    program is \<^verbatim>\<open>++_loops\<close>, and the counter stays between 0 and 9 in every
    state the program reaches (lemma \<open>loops_in_range\<close>), so it never overflows.
  \<^item> The joystick and the motor controller are outside the program. What their
    getters return during one tick is an input of the tick (record \<open>Hardware\<close>);
    what the program sends to them and prints is an output (record \<open>Effects\<close>).
  \<^item> Member names lose their leading underscore (\<^verbatim>\<open>_loops\<close> is \<open>loops\<close>).
\<close>

subsection \<open>Binary64\<close>

text \<open>
  A finite double other than minus zero is its value, a real number; \<open>Finite 0\<close> is
  plus zero. The values of the form \<open>Finite x\<close> that the program can hold are those
  \<open>round_double\<close> returns; the functions below are total on the others as well. NaN
  payloads and the sign of a NaN are not told apart.
\<close>

datatype double = Finite real | NegZero | PlusInf | MinusInf | NaN

text \<open>The binade of a positive real: \<open>2 ^ ilog2 x \<le> x < 2 ^ (ilog2 x + 1)\<close>.\<close>

function ilog2 :: "real \<Rightarrow> int" where
  "ilog2 x =
     (if x \<le> 0 then 0
      else if 2 \<le> x then ilog2 (x / 2) + 1
      else if x < 1 then ilog2 (x * 2) - 1
      else 0)"
  by pat_completeness auto
termination
proof (relation "measure (\<lambda>x. if 1 \<le> x then nat \<lfloor>x\<rfloor> else nat \<lceil>1 / x\<rceil>)")
  show "wf (measure (\<lambda>x. if 1 \<le> x then nat \<lfloor>x\<rfloor> else nat \<lceil>1 / x\<rceil>))"
    by simp
next
  fix x :: real
  assume "\<not> x \<le> 0" and big: "2 \<le> x"
  then have "\<lfloor>x / 2\<rfloor> < \<lfloor>x\<rfloor>" and "0 < \<lfloor>x\<rfloor>"
    by linarith+
  then show "(x / 2, x) \<in> measure (\<lambda>x. if 1 \<le> x then nat \<lfloor>x\<rfloor> else nat \<lceil>1 / x\<rceil>)"
    using big by simp
next
  fix x :: real
  assume pos: "\<not> x \<le> 0" and "\<not> 2 \<le> x" and small: "x < 1"
  show "(x * 2, x) \<in> measure (\<lambda>x. if 1 \<le> x then nat \<lfloor>x\<rfloor> else nat \<lceil>1 / x\<rceil>)"
  proof (cases "1 \<le> x * 2")
    case True
    then have "\<lfloor>x * 2\<rfloor> = 1"
      using small by linarith
    moreover have "1 < 1 / x"
      using pos small by (simp add: field_simps)
    then have "2 \<le> \<lceil>1 / x\<rceil>"
      by linarith
    ultimately show ?thesis
      using True small by simp
  next
    case False
    have inv: "2 < 1 / x"
      using pos False by (simp add: field_simps)
    have "1 / (x * 2) = (1 / x) / 2"
      by simp
    then have "\<lceil>1 / (x * 2)\<rceil> < \<lceil>1 / x\<rceil>" and "0 < \<lceil>1 / x\<rceil>"
      using inv by linarith+
    then show ?thesis
      using False small by simp
  qed
qed

declare ilog2.simps [simp del]

text \<open>\<open>scale2 q\<close> is \<open>2\<close> to the power \<open>q\<close>, for an integer \<open>q\<close> of either sign.\<close>

definition scale2 :: "int \<Rightarrow> real" where
  "scale2 q = (if 0 \<le> q then 2 ^ nat q else 1 / 2 ^ nat (- q))"

definition round_half_even :: "real \<Rightarrow> int" where
  "round_half_even y =
     (let f = \<lfloor>y\<rfloor>; r = y - real_of_int f
      in if r < 1 / 2 then f else if 1 / 2 < r then f + 1 else if even f then f else f + 1)"

text \<open>
  The double nearest to a real, ties to even. The spacing of the doubles around \<open>x\<close> is
  \<open>2 ^ q\<close> with \<open>q = max (ilog2 \<bar>x\<bar>) (-1022) - 52\<close> (53 significant bits; one spacing,
  \<open>2 ^ -1074\<close>, below \<open>2 ^ -1022\<close>). A result of magnitude \<open>2 ^ 1024\<close> or more is an
  infinity; a result that rounds to nothing keeps the sign of \<open>x\<close>.
\<close>

definition round_double :: "real \<Rightarrow> double" where
  "round_double x =
     (if x = 0 then Finite 0
      else
        let q = max (ilog2 \<bar>x\<bar>) (- 1022) - 52;
            n = round_half_even (\<bar>x\<bar> / scale2 q);
            v = real_of_int n * scale2 q
        in if 2 ^ 1024 \<le> v then (if x < 0 then MinusInf else PlusInf)
           else if n = 0 then (if x < 0 then NegZero else Finite 0)
           else Finite (if x < 0 then - v else v))"

text \<open>The conversion of an \<^verbatim>\<open>int\<close> to \<^verbatim>\<open>double\<close> (exact for 32 bits).\<close>

definition double_of_int :: "int \<Rightarrow> double" where
  "double_of_int i = round_double (real_of_int i)"

fun val :: "double \<Rightarrow> real" where
  "val (Finite x) = x"
| "val NegZero = 0"
| "val PlusInf = 0"
| "val MinusInf = 0"
| "val NaN = 0"

fun negative :: "double \<Rightarrow> bool" where
  "negative (Finite x) = (x < 0)"
| "negative NegZero = True"
| "negative PlusInf = False"
| "negative MinusInf = True"
| "negative NaN = False"

definition is_zero :: "double \<Rightarrow> bool" where
  "is_zero a = (a = Finite 0 \<or> a = NegZero)"

definition is_inf :: "double \<Rightarrow> bool" where
  "is_inf a = (a = PlusInf \<or> a = MinusInf)"

text \<open>
  Addition. Only the sum of two minus zeros is minus zero; every other exact sum of
  zero is plus zero.
\<close>

fun dadd :: "double \<Rightarrow> double \<Rightarrow> double" where
  "dadd NaN b = NaN"
| "dadd a NaN = NaN"
| "dadd PlusInf MinusInf = NaN"
| "dadd MinusInf PlusInf = NaN"
| "dadd PlusInf b = PlusInf"
| "dadd MinusInf b = MinusInf"
| "dadd a PlusInf = PlusInf"
| "dadd a MinusInf = MinusInf"
| "dadd NegZero NegZero = NegZero"
| "dadd a b = round_double (val a + val b)"

fun dneg :: "double \<Rightarrow> double" where
  "dneg (Finite x) = (if x = 0 then NegZero else Finite (- x))"
| "dneg NegZero = Finite 0"
| "dneg PlusInf = MinusInf"
| "dneg MinusInf = PlusInf"
| "dneg NaN = NaN"

definition dsub :: "double \<Rightarrow> double \<Rightarrow> double" where
  "dsub a b = dadd a (dneg b)"

text \<open>
  Multiplication. The sign of a zero or infinite product is the product of the signs;
  zero times infinity is NaN.
\<close>

definition dmul :: "double \<Rightarrow> double \<Rightarrow> double" where
  "dmul a b =
     (if a = NaN \<or> b = NaN then NaN
      else if is_inf a \<or> is_inf b then
        (if is_zero a \<or> is_zero b then NaN
         else if negative a = negative b then PlusInf else MinusInf)
      else if val a * val b = 0 then
        (if negative a = negative b then Finite 0 else NegZero)
      else round_double (val a * val b))"

text \<open>Comparison: false when an operand is NaN; the two zeros are equal.\<close>

fun dless :: "double \<Rightarrow> double \<Rightarrow> bool" where
  "dless NaN b = False"
| "dless a NaN = False"
| "dless PlusInf b = False"
| "dless a PlusInf = True"
| "dless a MinusInf = False"
| "dless MinusInf b = True"
| "dless a b = (val a < val b)"

definition dgreater :: "double \<Rightarrow> double \<Rightarrow> bool" where
  "dgreater a b = dless b a"

definition dequal :: "double \<Rightarrow> double \<Rightarrow> bool" where
  "dequal a b = (a \<noteq> NaN \<and> b \<noteq> NaN \<and> (a = b \<or> is_zero a \<and> is_zero b))"

subsection \<open>Data\<close>

text \<open>The control modes of the motor controller; the program names \<open>Position\<close> only.\<close>

datatype ControlMode =
  PercentOutput | Position | Velocity | Current | Follower
  | MotionProfile | MotionMagic | MotionProfileArc | Disabled

text \<open>
  The data members of \<^verbatim>\<open>class Robot\<close> (lines 26 to 36), without the two
  device handles.
\<close>

record Robot =
  sb :: string
  loops :: int
  deadBand :: int
  lastButton1 :: bool
  lastButton2 :: bool
  lastButton3 :: bool
  targetPositionRotations :: double

text \<open>
  The object as its default member initialisers leave it. The member
  \<^verbatim>\<open>double targetPositionRotations;\<close> has no initialiser and the class has no
  constructor, so its first value is not fixed by the program: it is the parameter
  \<open>t0\<close>, any double. \<^verbatim>\<open>int _deadBand = .1;\<close> converts to \<^verbatim>\<open>int\<close>, which
  truncates (the double nearest \<open>0.1\<close> lies between 0 and 1, as \<open>0.1\<close> does).
\<close>

definition Robot_new :: "double \<Rightarrow> Robot" where
  "Robot_new t0 =
     \<lparr>sb = [], loops = 0, deadBand = \<lfloor>0.1 :: real\<rfloor>,
      lastButton1 = False, lastButton2 = False, lastButton3 = False,
      targetPositionRotations = t0\<rparr>"

text \<open>
  What the devices answer during one call of \<^verbatim>\<open>TeleopPeriodic\<close>, one field per
  call site: \<^verbatim>\<open>_joy->GetRawAxis(1)\<close>, \<^verbatim>\<open>_joy->GetRawButton(1..4)\<close>,
  \<^verbatim>\<open>GetMotorOutputPercent()\<close>, \<^verbatim>\<open>GetSelectedSensorPosition(kPIDLoopIdx)\<close> at
  line 91 (for the printed line) and at line 118 (for the window test),
  \<^verbatim>\<open>GetClosedLoopError(kPIDLoopIdx)\<close> and \<^verbatim>\<open>GetControlMode()\<close>.
\<close>

record Hardware =
  GetRawAxis_1 :: double
  GetRawButton_1 :: bool
  GetRawButton_2 :: bool
  GetRawButton_3 :: bool
  GetRawButton_4 :: bool
  GetMotorOutputPercent :: double
  GetSelectedSensorPosition_line91 :: int
  GetSelectedSensorPosition_line118 :: int
  GetClosedLoopError :: int
  GetControlMode :: ControlMode

text \<open>
  What one call of \<^verbatim>\<open>TeleopPeriodic\<close> does to the outside: the calls
  \<^verbatim>\<open>_talon_right->Set(mode, value)\<close> in order, and the lines given to
  \<^verbatim>\<open>printf("%s\n", ...)\<close> in order (each without its newline).
\<close>

record Effects =
  Set_calls :: "(ControlMode \<times> double) list"
  printf_lines :: "string list"

subsection \<open>\<^verbatim>\<open>std::to_string\<close>\<close>

text \<open>\<^verbatim>\<open>std::to_string(int)\<close>: the decimal digits, after a minus sign when negative.\<close>

fun digits_of_nat :: "nat \<Rightarrow> string" where
  "digits_of_nat n =
     (if n < 10 then [char_of (48 + n)]
      else digits_of_nat (n div 10) @ [char_of (48 + n mod 10)])"

declare digits_of_nat.simps [simp del]

definition to_string_int :: "int \<Rightarrow> string" where
  "to_string_int i =
     (if i < 0 then CHR ''-'' # digits_of_nat (nat (- i)) else digits_of_nat (nat i))"

text \<open>
  \<^verbatim>\<open>std::to_string(double)\<close> is a function of the C++ library that formats a
  binary64 value; it is the parameter \<open>to_string_double\<close> of \<open>TeleopPeriodic\<close>, and
  nothing below depends on what it returns. Like \<^verbatim>\<open>std::to_string(int)\<close> it
  returns no NUL character, so that \<^verbatim>\<open>printf\<close> with \<^verbatim>\<open>%s\<close> prints the whole
  buffer.
\<close>

subsection \<open>\<^verbatim>\<open>TeleopPeriodic\<close> (lines 75 to 150)\<close>

text \<open>
  The function is embedded block by block, in the order of the source; each block is
  named after the comment that opens it there. The object \<open>r\<close> is rebound where the
  source assigns to a member.
\<close>

text \<open>
  Line 77: \<^verbatim>\<open>double leftYstick = _joy->GetRawAxis(1) * -1;\<close>, the \<^verbatim>\<open>int\<close>
  \<open>-1\<close> converted to \<^verbatim>\<open>double\<close>.
\<close>

definition leftYstick :: "Hardware \<Rightarrow> double" where
  "leftYstick hw = dmul (GetRawAxis_1 hw) (double_of_int (- 1))"

text \<open>Lines 87 to 91, \<^verbatim>\<open>/* prepare line to print */\<close>.\<close>

definition prepare_line :: "(double \<Rightarrow> string) \<Rightarrow> Hardware \<Rightarrow> Robot \<Rightarrow> Robot" where
  "prepare_line to_string_double hw r =
    (let motorOutputRight = GetMotorOutputPercent hw;
         r = r\<lparr>sb := sb r @ CHR 0x09 # ''out right: ''\<rparr>;
         r = r\<lparr>sb := sb r @ to_string_double motorOutputRight\<rparr>;
         r = r\<lparr>sb := sb r @ CHR 0x09 # ''pos right: ''\<rparr>
     in r\<lparr>sb := sb r @ to_string_int (GetSelectedSensorPosition_line91 hw)\<rparr>)"

text \<open>
  Modelled from the spec: the declaration of \<^verbatim>\<open>abs\<close> that the call
  \<^verbatim>\<open>abs(leftYstick)\<close> of line 117 resolves to. It comes from the headers included
  through \<^verbatim>\<open>frc/WPILib.h\<close>, which are not among the sources at hand. The
  specification reads the test as the absolute value of the axis value
  (\<open>abs(axisY) <= 0.01\<close> is the joystick at rest), that is the overload for
  \<^verbatim>\<open>double\<close>, which clears the sign.
\<close>

fun abs_double :: "double \<Rightarrow> double" where
  "abs_double (Finite x) = Finite \<bar>x\<bar>"
| "abs_double NegZero = Finite 0"
| "abs_double PlusInf = PlusInf"
| "abs_double MinusInf = PlusInf"
| "abs_double NaN = NaN"

text \<open>
  Lines 93 to 128: the three buttons, then \<^verbatim>\<open>/* Joystick control using position mode */\<close>.
  The result is the list of \<^verbatim>\<open>_talon_right->Set(ControlMode::Position, ...)\<close> calls
  made and the object after them. \<open>5.0\<close> and \<open>0.01\<close> are \<^verbatim>\<open>double\<close> literals;
  \<open>80\<close>, \<open>12\<close>, \<open>50\<close>, \<open>150\<close> and \<^verbatim>\<open>currentPos\<close> are \<^verbatim>\<open>int\<close>s converted to
  \<^verbatim>\<open>double\<close> where they meet one; \<^verbatim>\<open>5.0 * 80 * 12\<close> is
  \<^verbatim>\<open>(5.0 * 80) * 12\<close>.
\<close>

definition position_control :: "Hardware \<Rightarrow> Robot \<Rightarrow> (ControlMode \<times> double) list \<times> Robot" where
  "position_control hw r =
    (let button1 = GetRawButton_1 hw;
         button2 = GetRawButton_2 hw;
         button3 = GetRawButton_3 hw
     in if \<not> lastButton1 r \<and> button1 then
          (let r = r\<lparr>targetPositionRotations :=
                      dmul (dmul (round_double 5.0) (double_of_int 80)) (double_of_int 12)\<rparr>
           in ([(Position, targetPositionRotations r)], r))
        else if \<not> lastButton2 r \<and> button2 then
          (let r = r\<lparr>targetPositionRotations :=
                      dmul (dmul (round_double 10.0) (double_of_int 80)) (double_of_int 12)\<rparr>
           in ([(Position, targetPositionRotations r)], r))
        else if \<not> lastButton3 r \<and> button3 then
          (let r = r\<lparr>targetPositionRotations :=
                      dmul (dmul (round_double 15.0) (double_of_int 80)) (double_of_int 12)\<rparr>
           in ([(Position, targetPositionRotations r)], r))
        else if dgreater (abs_double (leftYstick hw)) (round_double 0.01) then
          (let currentPos = GetSelectedSensorPosition_line118 hw
           in if dgreater (dsub (targetPositionRotations r) (double_of_int 50))
                    (double_of_int currentPos)
                 \<or> dgreater (double_of_int currentPos)
                      (dadd (targetPositionRotations r) (double_of_int 50)) then
                (let r = r\<lparr>targetPositionRotations :=
                            dadd (dmul (leftYstick hw) (double_of_int 150))
                              (double_of_int currentPos)\<rparr>
                 in ([(Position, targetPositionRotations r)], r))
              else
                (let r = r\<lparr>targetPositionRotations :=
                            dadd (dmul (leftYstick hw) (double_of_int 150))
                              (targetPositionRotations r)\<rparr>
                 in ([(Position, targetPositionRotations r)], r)))
        else ([], r))"

text \<open>
  Lines 130 to 137,
  \<^verbatim>\<open>/* if Talon is in position closed-loop, print some more info */\<close>.
\<close>

definition more_info :: "(double \<Rightarrow> string) \<Rightarrow> Hardware \<Rightarrow> Robot \<Rightarrow> Robot" where
  "more_info to_string_double hw r =
    (if GetControlMode hw = Position then
       (let r = r\<lparr>sb := sb r @ CHR 0x09 # ''errNative: ''\<rparr>;
            r = r\<lparr>sb := sb r @ to_string_int (GetClosedLoopError hw)\<rparr>;
            r = r\<lparr>sb := sb r @ CHR 0x09 # ''trg: ''\<rparr>
        in r\<lparr>sb := sb r @ to_string_double (targetPositionRotations r)\<rparr>)
     else r)"

text \<open>
  Lines 139 to 144, \<^verbatim>\<open>/* print every ten loops ... */\<close>: the counter is
  incremented before it is compared; the result is the list of lines printed and the
  object after \<^verbatim>\<open>_sb.clear()\<close>.
\<close>

definition print_every_ten :: "Robot \<Rightarrow> string list \<times> Robot" where
  "print_every_ten r =
    (let r = r\<lparr>loops := loops r + 1\<rparr>;
         (lines, r) =
           (if loops r \<ge> 10 then (let r = r\<lparr>loops := 0\<rparr> in ([sb r], r)) else ([], r))
     in (lines, r\<lparr>sb := []\<rparr>))"

text \<open>Lines 146 to 149, \<^verbatim>\<open>/* save button state for on press detect */\<close>.\<close>

definition save_button_state :: "Hardware \<Rightarrow> Robot \<Rightarrow> Robot" where
  "save_button_state hw r =
    (let r = r\<lparr>lastButton1 := GetRawButton_1 hw\<rparr>;
         r = r\<lparr>lastButton2 := GetRawButton_2 hw\<rparr>
     in r\<lparr>lastButton3 := GetRawButton_3 hw\<rparr>)"

text \<open>
  The whole tick. \<^verbatim>\<open>button4\<close> (line 85) is read and not used again. The result is
  what the tick did to the outside and the object it leaves.
\<close>

definition TeleopPeriodic :: "(double \<Rightarrow> string) \<Rightarrow> Hardware \<Rightarrow> Robot \<Rightarrow> Effects \<times> Robot" where
  "TeleopPeriodic to_string_double hw r =
    (let button4 = GetRawButton_4 hw;
         r = prepare_line to_string_double hw r;
         (sets, r) = position_control hw r;
         r = more_info to_string_double hw r;
         (lines, r) = print_every_ten r;
         r = save_button_state hw r
     in (\<lparr>Set_calls = sets, printf_lines = lines\<rparr>, r))"

subsection \<open>\<^verbatim>\<open>RobotInit\<close> (lines 38 to 70)\<close>

text \<open>
  \<^verbatim>\<open>RobotInit\<close> only configures the motor controller. \<^verbatim>\<open>kPIDLoopIdx\<close> and
  \<^verbatim>\<open>kTimeoutMs\<close> come from \<^verbatim>\<open>Constants.h\<close>, which is not among the sources
  at hand: they are parameters. The result is the list of calls made on
  \<^verbatim>\<open>_talon_right\<close>, in order, and the object, which no statement assigns to.
\<close>

datatype FeedbackDevice = QuadEncoder | Analog | Tachometer | PulseWidthEncodedPosition

datatype talon_call =
  SetSelectedSensorPosition int int int
  | ConfigSelectedFeedbackSensor FeedbackDevice int int
  | SetSensorPhase bool
  | SetInverted bool
  | ConfigNominalOutputForward double int
  | ConfigNominalOutputReverse double int
  | ConfigPeakOutputForward double int
  | ConfigPeakOutputReverse double int
  | Config_kF int double int
  | Config_kP int double int
  | Config_kI int double int
  | Config_kD int double int
  | Config_IntegralZone int int int
  | ConfigNeutralDeadband double int
  | ConfigClosedloopRamp double int

definition RobotInit :: "int \<Rightarrow> int \<Rightarrow> Robot \<Rightarrow> talon_call list \<times> Robot" where
  "RobotInit kPIDLoopIdx kTimeoutMs r =
    ([SetSelectedSensorPosition 0 kPIDLoopIdx kTimeoutMs,
      ConfigSelectedFeedbackSensor QuadEncoder kPIDLoopIdx kTimeoutMs,
      SetSensorPhase False,
      SetInverted False,
      ConfigNominalOutputForward (double_of_int 0) kTimeoutMs,
      ConfigNominalOutputReverse (double_of_int 0) kTimeoutMs,
      ConfigPeakOutputForward (double_of_int 1) kTimeoutMs,
      ConfigPeakOutputReverse (double_of_int (- 1)) kTimeoutMs,
      Config_kF kPIDLoopIdx (round_double 0.0) kTimeoutMs,
      Config_kP kPIDLoopIdx (round_double 20.0) kTimeoutMs,
      Config_kI kPIDLoopIdx (round_double 0.001) kTimeoutMs,
      Config_kD kPIDLoopIdx (round_double 200.0) kTimeoutMs,
      Config_IntegralZone kPIDLoopIdx 50 kTimeoutMs,
      ConfigNeutralDeadband (double_of_int (deadBand r)) kTimeoutMs,
      ConfigClosedloopRamp (round_double 0.01) kTimeoutMs],
     r)"

subsection \<open>Several ticks\<close>

text \<open>
  The framework calls \<^verbatim>\<open>TeleopPeriodic\<close> once per tick on the same object.
  \<open>teleop\<close> runs one tick per element of a list of device answers and returns the
  effects of each tick, in order, and the object after the last one.
\<close>

fun teleop :: "(double \<Rightarrow> string) \<Rightarrow> Hardware list \<Rightarrow> Robot \<Rightarrow> Effects list \<times> Robot" where
  "teleop to_string_double [] r = ([], r)"
| "teleop to_string_double (hw # hws) r =
     (let (e, r) = TeleopPeriodic to_string_double hw r;
          (es, r) = teleop to_string_double hws r
      in (e # es, r))"

subsection \<open>Vocabulary of the properties\<close>

text \<open>
  A button is newly pressed in a tick (a rising edge) when it is down now and its
  saved flag is clear: the conditions of lines 94, 101 and 108.
\<close>

definition pressed1 :: "Hardware \<Rightarrow> Robot \<Rightarrow> bool" where
  "pressed1 hw r = (\<not> lastButton1 r \<and> GetRawButton_1 hw)"

definition pressed2 :: "Hardware \<Rightarrow> Robot \<Rightarrow> bool" where
  "pressed2 hw r = (\<not> lastButton2 r \<and> GetRawButton_2 hw)"

definition pressed3 :: "Hardware \<Rightarrow> Robot \<Rightarrow> bool" where
  "pressed3 hw r = (\<not> lastButton3 r \<and> GetRawButton_3 hw)"

text \<open>
  The part of the object that decides position commands: the target and the three
  saved button flags.
\<close>

definition arbiter_state :: "Robot \<Rightarrow> double \<times> bool \<times> bool \<times> bool" where
  "arbiter_state r = (targetPositionRotations r, lastButton1 r, lastButton2 r, lastButton3 r)"

text \<open>
  Device answers to evaluate the definitions at: the joystick axis, buttons 1 to 3 and
  the encoder position are given; button 4 is up, the motor output and the closed-loop
  error are 0 and the controller reports position mode.
\<close>

definition sample_hw :: "double \<Rightarrow> bool \<Rightarrow> bool \<Rightarrow> bool \<Rightarrow> int \<Rightarrow> Hardware" where
  "sample_hw axis b1 b2 b3 pos =
     \<lparr>GetRawAxis_1 = axis, GetRawButton_1 = b1, GetRawButton_2 = b2, GetRawButton_3 = b3,
      GetRawButton_4 = False, GetMotorOutputPercent = Finite 0,
      GetSelectedSensorPosition_line91 = pos, GetSelectedSensorPosition_line118 = pos,
      GetClosedLoopError = 0, GetControlMode = Position\<rparr>"

section \<open>Properties\<close>

subsection \<open>Rounding is to nearest\<close>

lemma scale2_pos: "0 < scale2 q"
  by (simp add: scale2_def)

lemma scale2_add1: "scale2 (q + 1) = 2 * scale2 q"
proof (cases "0 \<le> q")
  case True
  then have "nat (q + 1) = Suc (nat q)" by simp
  with True show ?thesis by (simp add: scale2_def)
next
  case False
  show ?thesis
  proof (cases "q = - 1")
    case True
    then show ?thesis by (simp add: scale2_def)
  next
    case False
    with \<open>\<not> 0 \<le> q\<close> have "q + 1 < 0" by simp
    moreover from this have "nat (- q) = Suc (nat (- (q + 1)))" by simp
    ultimately show ?thesis using \<open>\<not> 0 \<le> q\<close> by (simp add: scale2_def)
  qed
qed

lemma ilog2_bounds: "0 < x \<Longrightarrow> scale2 (ilog2 x) \<le> x \<and> x < scale2 (ilog2 x + 1)"
proof (induction x rule: ilog2.induct)
  case (1 x)
  consider (big) "2 \<le> x" | (small) "x < 1" | (unit) "1 \<le> x" "x < 2"
    by linarith
  then show ?case
  proof cases
    case big
    with "1.prems" have e: "ilog2 x = ilog2 (x / 2) + 1"
      by (subst ilog2.simps) simp
    from "1.IH"(1) big "1.prems"
    have "scale2 (ilog2 (x / 2)) \<le> x / 2 \<and> x / 2 < scale2 (ilog2 (x / 2) + 1)"
      by simp
    then show ?thesis
      unfolding e scale2_add1 by simp
  next
    case small
    with "1.prems" have e: "ilog2 (x * 2) = ilog2 x + 1"
      by (subst (2) ilog2.simps) simp
    from "1.IH"(2) small "1.prems"
    have "scale2 (ilog2 (x * 2)) \<le> x * 2 \<and> x * 2 < scale2 (ilog2 (x * 2) + 1)"
      by simp
    then show ?thesis
      unfolding e scale2_add1 by simp
  next
    case unit
    then have "ilog2 x = 0"
      by (subst ilog2.simps) simp
    with unit show ?thesis
      by (simp add: scale2_def)
  qed
qed

lemma round_half_even_near: "\<bar>real_of_int (round_half_even y) - y\<bar> \<le> 1 / 2"
  unfolding round_half_even_def Let_def by (auto simp: abs_if) linarith+

text \<open>A finite result is within half a spacing of the real it rounds.\<close>

lemma round_double_near:
  assumes "round_double x = Finite v"
  shows "\<bar>v - x\<bar> \<le> scale2 (max (ilog2 \<bar>x\<bar>) (- 1022) - 52) / 2"
proof (cases "x = 0")
  case True
  with assms show ?thesis by (simp add: round_double_def less_imp_le [OF scale2_pos])
next
  case False
  define q where "q = max (ilog2 \<bar>x\<bar>) (- 1022) - 52"
  define n where "n = round_half_even (\<bar>x\<bar> / scale2 q)"
  have near: "\<bar>real_of_int n - \<bar>x\<bar> / scale2 q\<bar> \<le> 1 / 2"
    unfolding n_def by (rule round_half_even_near)
  have "real_of_int n * scale2 q - \<bar>x\<bar> = (real_of_int n - \<bar>x\<bar> / scale2 q) * scale2 q"
    using scale2_pos [of q] by (simp add: field_simps)
  then have "\<bar>real_of_int n * scale2 q - \<bar>x\<bar>\<bar> = \<bar>real_of_int n - \<bar>x\<bar> / scale2 q\<bar> * scale2 q"
    using scale2_pos [of q] by (simp add: abs_mult)
  also have "\<dots> \<le> 1 / 2 * scale2 q"
    using near scale2_pos [of q] by (simp add: mult_right_mono)
  finally have mag: "\<bar>real_of_int n * scale2 q - \<bar>x\<bar>\<bar> \<le> scale2 q / 2"
    by simp
  from assms False have "v = (if x < 0 then - (real_of_int n * scale2 q) else real_of_int n * scale2 q)
      \<or> v = 0 \<and> n = 0"
    unfolding round_double_def Let_def q_def [symmetric] n_def [symmetric]
    by (auto split: if_splits)
  with mag show ?thesis
    unfolding q_def [symmetric] by (auto simp: abs_if split: if_splits)
qed

subsection \<open>Evaluating binary64\<close>

lemmas double_eval =
  round_double_def ilog2.simps scale2_def round_half_even_def Let_def double_of_int_def
  dsub_def dmul_def dgreater_def dequal_def is_zero_def is_inf_def

text \<open>The literal \<open>0.01\<close> is a little more than a hundredth.\<close>

lemma literal_0_01:
  "round_double 0.01 = Finite (5764607523034235 / 576460752303423488)"
  "round_double (- 0.01) = Finite (- (5764607523034235 / 576460752303423488))"
  by (simp_all add: double_eval)

lemma presets:
  "dmul (dmul (round_double 5.0) (double_of_int 80)) (double_of_int 12) = Finite 4800"
  "dmul (dmul (round_double 10.0) (double_of_int 80)) (double_of_int 12) = Finite 9600"
  "dmul (dmul (round_double 15.0) (double_of_int 80)) (double_of_int 12) = Finite 14400"
  by (simp_all add: double_eval)

text \<open>
  Rounding at work: a literal, ties going to the even neighbour, and three operations
  whose exact result is no double.
\<close>

lemma round_double_examples:
  "round_double 0.1 = Finite (3602879701896397 / 36028797018963968)"
  "round_double (2 ^ 53 + 1) = Finite (2 ^ 53)"
  "round_double (2 ^ 53 + 3) = Finite (2 ^ 53 + 4)"
  by (simp_all add: double_eval)

lemma rounding_examples:
  "dsub (Finite (1 / 2 ^ 70)) (double_of_int 50) = Finite (- 50)"
  "dadd (Finite 150) (Finite (1 / 2 ^ 70)) = Finite 150"
  "dmul (round_double 0.1) (double_of_int 150) = Finite 15"
  by (simp_all add: double_eval)

subsection \<open>The blocks of a tick\<close>

lemma prepare_line_simps:
  "sb (prepare_line f hw r) =
     sb r @ CHR 0x09 # ''out right: '' @ f (GetMotorOutputPercent hw)
       @ CHR 0x09 # ''pos right: '' @ to_string_int (GetSelectedSensorPosition_line91 hw)"
  "loops (prepare_line f hw r) = loops r"
  "deadBand (prepare_line f hw r) = deadBand r"
  "lastButton1 (prepare_line f hw r) = lastButton1 r"
  "lastButton2 (prepare_line f hw r) = lastButton2 r"
  "lastButton3 (prepare_line f hw r) = lastButton3 r"
  "targetPositionRotations (prepare_line f hw r) = targetPositionRotations r"
  by (simp_all add: prepare_line_def Let_def)

lemma more_info_simps:
  "sb (more_info f hw r) =
     sb r @ (if GetControlMode hw = Position then
               CHR 0x09 # ''errNative: '' @ to_string_int (GetClosedLoopError hw)
                 @ CHR 0x09 # ''trg: '' @ f (targetPositionRotations r)
             else [])"
  "loops (more_info f hw r) = loops r"
  "deadBand (more_info f hw r) = deadBand r"
  "lastButton1 (more_info f hw r) = lastButton1 r"
  "lastButton2 (more_info f hw r) = lastButton2 r"
  "lastButton3 (more_info f hw r) = lastButton3 r"
  "targetPositionRotations (more_info f hw r) = targetPositionRotations r"
  by (simp_all add: more_info_def Let_def)

lemma print_every_ten_simps:
  "fst (print_every_ten r) = (if loops r + 1 \<ge> 10 then [sb r] else [])"
  "sb (snd (print_every_ten r)) = []"
  "loops (snd (print_every_ten r)) = (if loops r + 1 \<ge> 10 then 0 else loops r + 1)"
  "deadBand (snd (print_every_ten r)) = deadBand r"
  "lastButton1 (snd (print_every_ten r)) = lastButton1 r"
  "lastButton2 (snd (print_every_ten r)) = lastButton2 r"
  "lastButton3 (snd (print_every_ten r)) = lastButton3 r"
  "targetPositionRotations (snd (print_every_ten r)) = targetPositionRotations r"
  by (simp_all add: print_every_ten_def Let_def split_beta)

lemma save_button_state_simps:
  "sb (save_button_state hw r) = sb r"
  "loops (save_button_state hw r) = loops r"
  "deadBand (save_button_state hw r) = deadBand r"
  "lastButton1 (save_button_state hw r) = GetRawButton_1 hw"
  "lastButton2 (save_button_state hw r) = GetRawButton_2 hw"
  "lastButton3 (save_button_state hw r) = GetRawButton_3 hw"
  "targetPositionRotations (save_button_state hw r) = targetPositionRotations r"
  by (simp_all add: save_button_state_def Let_def)

subsection \<open>The branches of \<open>position_control\<close>\<close>

lemma position_control_button1:
  "pressed1 hw r \<Longrightarrow>
   position_control hw r = ([(Position, Finite 4800)], r\<lparr>targetPositionRotations := Finite 4800\<rparr>)"
  unfolding position_control_def pressed1_def Let_def presets
  by simp

lemma position_control_button2:
  "\<not> pressed1 hw r \<Longrightarrow> pressed2 hw r \<Longrightarrow>
   position_control hw r = ([(Position, Finite 9600)], r\<lparr>targetPositionRotations := Finite 9600\<rparr>)"
  unfolding position_control_def pressed1_def pressed2_def Let_def presets
  by simp

lemma position_control_button3:
  "\<not> pressed1 hw r \<Longrightarrow> \<not> pressed2 hw r \<Longrightarrow> pressed3 hw r \<Longrightarrow>
   position_control hw r = ([(Position, Finite 14400)], r\<lparr>targetPositionRotations := Finite 14400\<rparr>)"
  unfolding position_control_def pressed1_def pressed2_def pressed3_def Let_def presets
  by simp

lemma position_control_reanchor:
  "\<not> pressed1 hw r \<Longrightarrow> \<not> pressed2 hw r \<Longrightarrow> \<not> pressed3 hw r \<Longrightarrow>
   dgreater (abs_double (leftYstick hw)) (round_double 0.01) \<Longrightarrow>
   dgreater (dsub (targetPositionRotations r) (double_of_int 50)) (double_of_int (GetSelectedSensorPosition_line118 hw))
     \<or> dgreater (double_of_int (GetSelectedSensorPosition_line118 hw)) (dadd (targetPositionRotations r) (double_of_int 50)) \<Longrightarrow>
   position_control hw r =
     ([(Position, dadd (dmul (leftYstick hw) (double_of_int 150)) (double_of_int (GetSelectedSensorPosition_line118 hw)))],
      r\<lparr>targetPositionRotations :=
          dadd (dmul (leftYstick hw) (double_of_int 150)) (double_of_int (GetSelectedSensorPosition_line118 hw))\<rparr>)"
  unfolding position_control_def pressed1_def pressed2_def pressed3_def Let_def
  by (simp only: if_False if_True) simp

lemma position_control_accumulate:
  "\<not> pressed1 hw r \<Longrightarrow> \<not> pressed2 hw r \<Longrightarrow> \<not> pressed3 hw r \<Longrightarrow>
   dgreater (abs_double (leftYstick hw)) (round_double 0.01) \<Longrightarrow>
   \<not> (dgreater (dsub (targetPositionRotations r) (double_of_int 50)) (double_of_int (GetSelectedSensorPosition_line118 hw))
     \<or> dgreater (double_of_int (GetSelectedSensorPosition_line118 hw)) (dadd (targetPositionRotations r) (double_of_int 50))) \<Longrightarrow>
   position_control hw r =
     ([(Position, dadd (dmul (leftYstick hw) (double_of_int 150)) (targetPositionRotations r))],
      r\<lparr>targetPositionRotations := dadd (dmul (leftYstick hw) (double_of_int 150)) (targetPositionRotations r)\<rparr>)"
  unfolding position_control_def pressed1_def pressed2_def pressed3_def Let_def
  by (simp only: if_False if_True) simp

lemma position_control_at_rest:
  "\<not> pressed1 hw r \<Longrightarrow> \<not> pressed2 hw r \<Longrightarrow> \<not> pressed3 hw r \<Longrightarrow>
   \<not> dgreater (abs_double (leftYstick hw)) (round_double 0.01) \<Longrightarrow> position_control hw r = ([], r)"
  unfolding position_control_def pressed1_def pressed2_def pressed3_def Let_def
  by (simp only: if_False if_True)

text \<open>The six branches together, as one case distinction.\<close>

lemma position_control_cases:
  "position_control hw r =
     (if pressed1 hw r then ([(Position, Finite 4800)], r\<lparr>targetPositionRotations := Finite 4800\<rparr>)
      else if pressed2 hw r then ([(Position, Finite 9600)], r\<lparr>targetPositionRotations := Finite 9600\<rparr>)
      else if pressed3 hw r then ([(Position, Finite 14400)], r\<lparr>targetPositionRotations := Finite 14400\<rparr>)
      else if dgreater (abs_double (leftYstick hw)) (round_double 0.01) then
        (if dgreater (dsub (targetPositionRotations r) (double_of_int 50)) (double_of_int (GetSelectedSensorPosition_line118 hw))
            \<or> dgreater (double_of_int (GetSelectedSensorPosition_line118 hw)) (dadd (targetPositionRotations r) (double_of_int 50))
         then ([(Position, dadd (dmul (leftYstick hw) (double_of_int 150)) (double_of_int (GetSelectedSensorPosition_line118 hw)))],
               r\<lparr>targetPositionRotations :=
                   dadd (dmul (leftYstick hw) (double_of_int 150)) (double_of_int (GetSelectedSensorPosition_line118 hw))\<rparr>)
         else ([(Position, dadd (dmul (leftYstick hw) (double_of_int 150)) (targetPositionRotations r))],
               r\<lparr>targetPositionRotations := dadd (dmul (leftYstick hw) (double_of_int 150)) (targetPositionRotations r)\<rparr>))
      else ([], r))"
proof (cases "pressed1 hw r")
  case True
  then show ?thesis by (simp add: position_control_button1)
next
  case n1: False
  show ?thesis
  proof (cases "pressed2 hw r")
    case True
    with n1 show ?thesis by (simp add: position_control_button2)
  next
    case n2: False
    show ?thesis
    proof (cases "pressed3 hw r")
      case True
      with n1 n2 show ?thesis by (simp add: position_control_button3)
    next
      case n3: False
      show ?thesis
      proof (cases "dgreater (abs_double (leftYstick hw)) (round_double 0.01)")
        case False
        with n1 n2 n3 show ?thesis by (simp add: position_control_at_rest)
      next
        case y: True
        show ?thesis
        proof (cases "dgreater (dsub (targetPositionRotations r) (double_of_int 50)) (double_of_int (GetSelectedSensorPosition_line118 hw))
            \<or> dgreater (double_of_int (GetSelectedSensorPosition_line118 hw)) (dadd (targetPositionRotations r) (double_of_int 50))")
          case True
          with n1 n2 n3 y show ?thesis by (simp add: position_control_reanchor)
        next
          case False
          with n1 n2 n3 y show ?thesis by (simp add: position_control_accumulate)
        qed
      qed
    qed
  qed
qed

lemma position_control_frame:
  "sb (snd (position_control hw r)) = sb r"
  "loops (snd (position_control hw r)) = loops r"
  "deadBand (snd (position_control hw r)) = deadBand r"
  "lastButton1 (snd (position_control hw r)) = lastButton1 r"
  "lastButton2 (snd (position_control hw r)) = lastButton2 r"
  "lastButton3 (snd (position_control hw r)) = lastButton3 r"
  by (simp_all add: position_control_cases)

text \<open>
  The commands are the new target, once, when a branch fires, and the new target depends
  on the object through the saved flags and the old target only.
\<close>

lemma position_control_target:
  "targetPositionRotations (snd (position_control hw r)) =
     (if pressed1 hw r then Finite 4800
      else if pressed2 hw r then Finite 9600
      else if pressed3 hw r then Finite 14400
      else if dgreater (abs_double (leftYstick hw)) (round_double 0.01) then
        (if dgreater (dsub (targetPositionRotations r) (double_of_int 50)) (double_of_int (GetSelectedSensorPosition_line118 hw))
            \<or> dgreater (double_of_int (GetSelectedSensorPosition_line118 hw)) (dadd (targetPositionRotations r) (double_of_int 50))
         then dadd (dmul (leftYstick hw) (double_of_int 150)) (double_of_int (GetSelectedSensorPosition_line118 hw))
         else dadd (dmul (leftYstick hw) (double_of_int 150)) (targetPositionRotations r))
      else targetPositionRotations r)"
  by (simp add: position_control_cases)

lemma position_control_commands:
  "fst (position_control hw r) =
     (if pressed1 hw r \<or> pressed2 hw r \<or> pressed3 hw r \<or> dgreater (abs_double (leftYstick hw)) (round_double 0.01)
      then [(Position, targetPositionRotations (snd (position_control hw r)))] else [])"
  by (simp add: position_control_cases)

lemma pressed_prepare_line:
  "pressed1 hw (prepare_line f hw r) = pressed1 hw r"
  "pressed2 hw (prepare_line f hw r) = pressed2 hw r"
  "pressed3 hw (prepare_line f hw r) = pressed3 hw r"
  by (simp_all add: pressed1_def pressed2_def pressed3_def prepare_line_simps)

lemma position_control_prepare_line:
  "targetPositionRotations (snd (position_control hw (prepare_line f hw r))) =
     targetPositionRotations (snd (position_control hw r))"
  by (simp only: position_control_target pressed_prepare_line prepare_line_simps)

subsection \<open>A whole tick\<close>

lemma TeleopPeriodic_unfold:
  "TeleopPeriodic f hw r =
     (\<lparr>Set_calls = fst (position_control hw (prepare_line f hw r)),
       printf_lines =
         fst (print_every_ten (more_info f hw (snd (position_control hw (prepare_line f hw r)))))\<rparr>,
      save_button_state hw
        (snd (print_every_ten (more_info f hw (snd (position_control hw (prepare_line f hw r)))))))"
  by (simp add: TeleopPeriodic_def Let_def split_beta)

lemma TeleopPeriodic_target:
  "targetPositionRotations (snd (TeleopPeriodic f hw r)) =
     targetPositionRotations (snd (position_control hw r))"
  by (simp add: TeleopPeriodic_unfold save_button_state_simps print_every_ten_simps
      more_info_simps position_control_prepare_line)

lemma TeleopPeriodic_Set_calls:
  "Set_calls (fst (TeleopPeriodic f hw r)) = fst (position_control hw r)"
  by (simp add: TeleopPeriodic_unfold position_control_commands pressed_prepare_line
      position_control_prepare_line)

lemma TeleopPeriodic_lastButtons:
  "lastButton1 (snd (TeleopPeriodic f hw r)) = GetRawButton_1 hw"
  "lastButton2 (snd (TeleopPeriodic f hw r)) = GetRawButton_2 hw"
  "lastButton3 (snd (TeleopPeriodic f hw r)) = GetRawButton_3 hw"
  by (simp_all add: TeleopPeriodic_unfold save_button_state_simps)

lemma TeleopPeriodic_sb: "sb (snd (TeleopPeriodic f hw r)) = []"
  by (simp add: TeleopPeriodic_unfold save_button_state_simps print_every_ten_simps)

lemma TeleopPeriodic_deadBand: "deadBand (snd (TeleopPeriodic f hw r)) = deadBand r"
  by (simp add: TeleopPeriodic_unfold save_button_state_simps print_every_ten_simps
      more_info_simps position_control_frame prepare_line_simps)

lemma TeleopPeriodic_loops:
  "loops (snd (TeleopPeriodic f hw r)) = (if loops r + 1 \<ge> 10 then 0 else loops r + 1)"
  by (simp add: TeleopPeriodic_unfold save_button_state_simps print_every_ten_simps
      more_info_simps position_control_frame prepare_line_simps)

lemma TeleopPeriodic_printf_lines:
  "printf_lines (fst (TeleopPeriodic f hw r)) =
     (if loops r + 1 \<ge> 10 then
        [sb r @ CHR 0x09 # ''out right: '' @ f (GetMotorOutputPercent hw)
           @ CHR 0x09 # ''pos right: '' @ to_string_int (GetSelectedSensorPosition_line91 hw)
           @ (if GetControlMode hw = Position then
                CHR 0x09 # ''errNative: '' @ to_string_int (GetClosedLoopError hw)
                  @ CHR 0x09 # ''trg: '' @ f (targetPositionRotations (snd (TeleopPeriodic f hw r)))
              else [])]
      else [])"
  by (simp add: TeleopPeriodic_unfold save_button_state_simps print_every_ten_simps
      more_info_simps position_control_frame prepare_line_simps position_control_prepare_line)

text \<open>The object after a tick, field by field.\<close>

lemma TeleopPeriodic_snd:
  "snd (TeleopPeriodic f hw r) =
     \<lparr>sb = [], loops = (if loops r + 1 \<ge> 10 then 0 else loops r + 1), deadBand = deadBand r,
      lastButton1 = GetRawButton_1 hw, lastButton2 = GetRawButton_2 hw,
      lastButton3 = GetRawButton_3 hw,
      targetPositionRotations = targetPositionRotations (snd (position_control hw r))\<rparr>"
  by (rule Robot.equality)
    (simp_all only: TeleopPeriodic_target TeleopPeriodic_lastButtons TeleopPeriodic_sb
      TeleopPeriodic_deadBand TeleopPeriodic_loops Robot.simps, simp)

subsection \<open>Several ticks and unused input\<close>

lemma teleop_one: "teleop f [hw] r = ([fst (TeleopPeriodic f hw r)], snd (TeleopPeriodic f hw r))"
  by (simp add: split_beta)

lemma teleop_two:
  "teleop f [hw1, hw2] r =
     ([fst (TeleopPeriodic f hw1 r), fst (TeleopPeriodic f hw2 (snd (TeleopPeriodic f hw1 r)))],
      snd (TeleopPeriodic f hw2 (snd (TeleopPeriodic f hw1 r))))"
  by (simp add: split_beta)

lemma pressed_after_same:
  "\<not> pressed1 hw (snd (TeleopPeriodic f hw r))"
  "\<not> pressed2 hw (snd (TeleopPeriodic f hw r))"
  "\<not> pressed3 hw (snd (TeleopPeriodic f hw r))"
  by (simp_all add: pressed1_def pressed2_def pressed3_def TeleopPeriodic_lastButtons)

lemma leftYstick_button4: "leftYstick (hw\<lparr>GetRawButton_4 := b\<rparr>) = leftYstick hw"
  by (simp add: leftYstick_def)

lemma blocks_button4:
  "prepare_line f (hw\<lparr>GetRawButton_4 := b\<rparr>) r = prepare_line f hw r"
  "position_control (hw\<lparr>GetRawButton_4 := b\<rparr>) r = position_control hw r"
  "more_info f (hw\<lparr>GetRawButton_4 := b\<rparr>) r = more_info f hw r"
  "save_button_state (hw\<lparr>GetRawButton_4 := b\<rparr>) r = save_button_state hw r"
  by (simp_all add: prepare_line_def position_control_def more_info_def save_button_state_def
      leftYstick_button4 Let_def split del: if_split cong: if_cong)

lemma at_rest_inside:
  "dless (round_double (- 0.01)) y \<Longrightarrow> dless y (round_double 0.01) \<Longrightarrow>
   \<not> dgreater (abs_double y) (round_double 0.01)"
  unfolding literal_0_01 dgreater_def
  by (cases y) simp_all

lemma at_rest_zero: "dequal y (Finite 0) \<Longrightarrow> \<not> dgreater (abs_double y) (round_double 0.01)"
  unfolding literal_0_01 dgreater_def dequal_def is_zero_def
  by (cases y) simp_all

text \<open>At the literal itself the test of line 117 fails, and the tick sends nothing.\<close>

lemma deadband_limit_sends_nothing:
  assumes "\<not> pressed1 hw r" "\<not> pressed2 hw r" "\<not> pressed3 hw r"
    and "abs_double (leftYstick hw) = round_double 0.01"
  shows "Set_calls (fst (TeleopPeriodic f hw r)) = []"
proof -
  have "\<not> dgreater (abs_double (leftYstick hw)) (round_double 0.01)"
    unfolding assms(4) literal_0_01 dgreater_def by simp
  with assms(1-3) have "position_control hw r = ([], r)"
    by (rule position_control_at_rest)
  then show ?thesis
    by (simp add: TeleopPeriodic_Set_calls)
qed

text \<open>The joystick value of some device answers; an axis at plus zero gives minus zero.\<close>

lemma leftYstick_sample:
  "leftYstick (sample_hw (Finite (- 0.5)) b1 b2 b3 pos) = Finite 0.5"
  "leftYstick (sample_hw (Finite (1 / 128)) b1 b2 b3 pos) = Finite (- (1 / 128))"
  "leftYstick (sample_hw (Finite 0) b1 b2 b3 pos) = NegZero"
  by (simp_all add: leftYstick_def sample_hw_def double_eval)

subsection \<open>Runs of ticks, the counter and a new object\<close>

lemma teleop_snoc:
  "teleop f (hws @ [hw]) r =
     (fst (teleop f hws r) @ [fst (TeleopPeriodic f hw (snd (teleop f hws r)))],
      snd (TeleopPeriodic f hw (snd (teleop f hws r))))"
  by (induction hws arbitrary: r) (simp_all add: split_beta)

lemma teleop_nth:
  "k < length hws \<Longrightarrow>
   fst (teleop f hws r) ! k = fst (TeleopPeriodic f (hws ! k) (snd (teleop f (take k hws) r)))"
proof (induction hws arbitrary: r k)
  case Nil
  then show ?case by simp
next
  case (Cons hw hws)
  show ?case
  proof (cases k)
    case 0
    then show ?thesis by (simp add: split_beta)
  next
    case (Suc j)
    with Cons.prems have "j < length hws" by simp
    from Cons.IH [OF this] Suc show ?thesis by (simp add: split_beta)
  qed
qed

lemma teleop_take_Suc:
  "k < length hws \<Longrightarrow>
   snd (teleop f (take (Suc k) hws) r) = snd (TeleopPeriodic f (hws ! k) (snd (teleop f (take k hws) r)))"
  by (simp add: take_Suc_conv_app_nth teleop_snoc)

text \<open>The counter stays between 0 and 9 and counts the ticks modulo 10.\<close>

lemma TeleopPeriodic_loops_mod:
  "0 \<le> loops r \<Longrightarrow> loops r < 10 \<Longrightarrow> loops (snd (TeleopPeriodic f hw r)) = (loops r + 1) mod 10"
  by (simp add: TeleopPeriodic_loops, presburger)

lemma loops_in_range:
  "0 \<le> loops r \<Longrightarrow> loops r < 10 \<Longrightarrow>
   0 \<le> loops (snd (teleop f hws r)) \<and> loops (snd (teleop f hws r)) < 10"
proof (induction hws arbitrary: r)
  case Nil
  then show ?case by simp
next
  case (Cons hw hws)
  have "0 \<le> loops (snd (TeleopPeriodic f hw r))" "loops (snd (TeleopPeriodic f hw r)) < 10"
    using Cons.prems by (simp_all add: TeleopPeriodic_loops)
  from Cons.IH [OF this] show ?case by (simp add: split_beta)
qed

lemma teleop_loops:
  "0 \<le> loops r \<Longrightarrow> loops r < 10 \<Longrightarrow>
   loops (snd (teleop f hws r)) = (loops r + int (length hws)) mod 10"
proof (induction hws arbitrary: r)
  case Nil
  then show ?case by simp
next
  case (Cons hw hws)
  let ?r1 = "snd (TeleopPeriodic f hw r)"
  have step: "loops ?r1 = (loops r + 1) mod 10"
    using Cons.prems by (rule TeleopPeriodic_loops_mod)
  then have range: "0 \<le> loops ?r1" "loops ?r1 < 10" by simp_all
  have "loops (snd (teleop f (hw # hws) r)) = loops (snd (teleop f hws ?r1))"
    by (simp add: split_beta)
  also have "\<dots> = (loops ?r1 + int (length hws)) mod 10"
    using range by (rule Cons.IH)
  also have "\<dots> = ((loops r + 1) mod 10 + int (length hws)) mod 10"
    by (simp only: step)
  also have "\<dots> = (loops r + int (length (hw # hws))) mod 10"
    by (simp add: mod_simps ac_simps)
  finally show ?case .
qed

lemma teleop_sb: "sb r = [] \<Longrightarrow> sb (snd (teleop f hws r)) = []"
  by (induction hws arbitrary: r) (simp_all add: split_beta TeleopPeriodic_sb)

lemma to_string_int_examples:
  "to_string_int 5 = ''5''"
  "to_string_int 0 = ''0''"
  "to_string_int (- 1205) = ''-1205''"
  by code_simp+

lemma RobotInit_object: "snd (RobotInit kPIDLoopIdx kTimeoutMs r) = r"
  by (simp add: RobotInit_def)

lemma Robot_new_simps:
  "sb (Robot_new t0) = []"
  "loops (Robot_new t0) = 0"
  "deadBand (Robot_new t0) = 0"
  "lastButton1 (Robot_new t0) = False"
  "lastButton2 (Robot_new t0) = False"
  "lastButton3 (Robot_new t0) = False"
  "targetPositionRotations (Robot_new t0) = t0"
  by (simp_all add: Robot_new_def)

lemma first_tick_preset:
  assumes "GetRawButton_1 hw \<or> GetRawButton_2 hw \<or> GetRawButton_3 hw"
  shows "TeleopPeriodic f hw (Robot_new t0) = TeleopPeriodic f hw (Robot_new t0')"
proof (rule prod_eqI)
  have p: "pressed1 hw (Robot_new t0) = pressed1 hw (Robot_new t0')"
    "pressed2 hw (Robot_new t0) = pressed2 hw (Robot_new t0')"
    "pressed3 hw (Robot_new t0) = pressed3 hw (Robot_new t0')"
    by (simp_all add: pressed1_def pressed2_def pressed3_def Robot_new_simps)
  have some: "pressed1 hw (Robot_new t0') \<or> pressed2 hw (Robot_new t0') \<or> pressed3 hw (Robot_new t0')"
    using assms by (simp add: pressed1_def pressed2_def pressed3_def Robot_new_simps)
  have t: "targetPositionRotations (snd (position_control hw (Robot_new t0))) =
      targetPositionRotations (snd (position_control hw (Robot_new t0')))"
    using some by (auto simp add: position_control_target p)
  have c: "fst (position_control hw (Robot_new t0)) = fst (position_control hw (Robot_new t0'))"
    using some by (simp add: position_control_commands p t)
  show "snd (TeleopPeriodic f hw (Robot_new t0)) = snd (TeleopPeriodic f hw (Robot_new t0'))"
    by (simp add: TeleopPeriodic_snd t Robot_new_simps)
  show "fst (TeleopPeriodic f hw (Robot_new t0)) = fst (TeleopPeriodic f hw (Robot_new t0'))"
    by (rule Effects.equality)
      (simp_all add: TeleopPeriodic_Set_calls c TeleopPeriodic_printf_lines Robot_new_simps)
qed

section \<open>The claims\<close>

text \<open>
  Claim C1. In a tick where no button is newly pressed and \<open>abs(leftYstick) > 0.01\<close>, the
  position read at line 118 is compared with the window of 50 counts around the target,
  by the program's own tests \<open>target - 50 > currentPos\<close> and \<open>currentPos > target + 50\<close>:
  when one of them holds, the new target is \<open>leftYstick * 150 + currentPos\<close>; otherwise,
  also on the border of the window, it is \<open>leftYstick * 150 + target\<close>. Either way the new
  target is sent once, as a position command. With the target at 1000, the position 949
  re-anchors and the position 950 accumulates. All operations are those of binary64.
\<close>

theorem C1_joystick_adjustment:
  "\<not> pressed1 hw r \<Longrightarrow> \<not> pressed2 hw r \<Longrightarrow> \<not> pressed3 hw r \<Longrightarrow>
   dgreater (abs_double (leftYstick hw)) (round_double 0.01) \<Longrightarrow>
   targetPositionRotations (snd (TeleopPeriodic f hw r)) =
     (if dgreater (dsub (targetPositionRotations r) (double_of_int 50))
           (double_of_int (GetSelectedSensorPosition_line118 hw))
         \<or> dgreater (double_of_int (GetSelectedSensorPosition_line118 hw))
             (dadd (targetPositionRotations r) (double_of_int 50))
      then dadd (dmul (leftYstick hw) (double_of_int 150))
             (double_of_int (GetSelectedSensorPosition_line118 hw))
      else dadd (dmul (leftYstick hw) (double_of_int 150)) (targetPositionRotations r))
   \<and> Set_calls (fst (TeleopPeriodic f hw r)) =
       [(Position, targetPositionRotations (snd (TeleopPeriodic f hw r)))]
   \<and> (targetPositionRotations r = Finite 1000 \<and> GetSelectedSensorPosition_line118 hw = 949 \<longrightarrow>
        targetPositionRotations (snd (TeleopPeriodic f hw r)) =
          dadd (dmul (leftYstick hw) (double_of_int 150)) (double_of_int 949))
   \<and> (targetPositionRotations r = Finite 1000 \<and> GetSelectedSensorPosition_line118 hw = 950 \<longrightarrow>
        targetPositionRotations (snd (TeleopPeriodic f hw r)) =
          dadd (dmul (leftYstick hw) (double_of_int 150)) (Finite 1000))"
proof -
  assume n: "\<not> pressed1 hw r" "\<not> pressed2 hw r" "\<not> pressed3 hw r"
    and m: "dgreater (abs_double (leftYstick hw)) (round_double 0.01)"
  have t: "targetPositionRotations (snd (TeleopPeriodic f hw r)) =
     (if dgreater (dsub (targetPositionRotations r) (double_of_int 50))
           (double_of_int (GetSelectedSensorPosition_line118 hw))
         \<or> dgreater (double_of_int (GetSelectedSensorPosition_line118 hw))
             (dadd (targetPositionRotations r) (double_of_int 50))
      then dadd (dmul (leftYstick hw) (double_of_int 150))
             (double_of_int (GetSelectedSensorPosition_line118 hw))
      else dadd (dmul (leftYstick hw) (double_of_int 150)) (targetPositionRotations r))"
    using n m by (simp add: TeleopPeriodic_target position_control_target)
  have c: "Set_calls (fst (TeleopPeriodic f hw r)) =
       [(Position, targetPositionRotations (snd (TeleopPeriodic f hw r)))]"
    using n m by (simp add: TeleopPeriodic_target TeleopPeriodic_Set_calls position_control_commands)
  have below: "dgreater (dsub (Finite 1000) (double_of_int 50)) (double_of_int 949)"
    by (simp add: double_eval)
  have border: "\<not> dgreater (dsub (Finite 1000) (double_of_int 50)) (double_of_int 950)"
    "\<not> dgreater (double_of_int 950) (dadd (Finite 1000) (double_of_int 50))"
    by (simp_all add: double_eval)
  from t below border c show ?thesis
    by simp
qed

theorem C1_joystick_adjustment_witness:
  "Set_calls (fst (TeleopPeriodic (\<lambda>x. []) (sample_hw (Finite (- 0.5)) False False False 949)
      (Robot_new (Finite 1000))))
     = [(Position, Finite 1024)]
   \<and> targetPositionRotations
       (snd (TeleopPeriodic (\<lambda>x. []) (sample_hw (Finite (- 0.5)) False False False 949)
          (Robot_new (Finite 1000))))
     = Finite 1024
   \<and> Set_calls (fst (TeleopPeriodic (\<lambda>x. []) (sample_hw (Finite (- 0.5)) False False False 950)
      (Robot_new (Finite 1000))))
     = [(Position, Finite 1075)]
   \<and> Set_calls (fst (TeleopPeriodic (\<lambda>x. []) (sample_hw (Finite (- 1)) False False False (- 50))
      (Robot_new (Finite (1 / 2 ^ 70)))))
     = [(Position, Finite 150)]"
  using
    C1_joystick_adjustment [of "sample_hw (Finite (- 0.5)) False False False 949"
      "Robot_new (Finite 1000)" "\<lambda>x. []"]
    C1_joystick_adjustment [of "sample_hw (Finite (- 0.5)) False False False 950"
      "Robot_new (Finite 1000)" "\<lambda>x. []"]
    C1_joystick_adjustment [of "sample_hw (Finite (- 1)) False False False (- 50)"
      "Robot_new (Finite (1 / 2 ^ 70))" "\<lambda>x. []"]
  by (simp add: pressed1_def pressed2_def pressed3_def leftYstick_def sample_hw_def Robot_new_def
      double_eval)

text \<open>
  Claim C2. In a tick where button 1 is down and its saved flag is clear, the target
  becomes \<open>5.0 * 80 * 12 = 4800\<close> and one position command of 4800 is sent, whatever the
  joystick axis and the old target are.
\<close>

theorem C2_button1_preset:
  "pressed1 hw r \<Longrightarrow>
   targetPositionRotations (snd (TeleopPeriodic f hw r)) =
     dmul (dmul (round_double 5.0) (double_of_int 80)) (double_of_int 12)
   \<and> targetPositionRotations (snd (TeleopPeriodic f hw r)) = Finite 4800
   \<and> Set_calls (fst (TeleopPeriodic f hw r)) = [(Position, Finite 4800)]"
proof -
  assume p: "pressed1 hw r"
  have t: "targetPositionRotations (snd (TeleopPeriodic f hw r)) = Finite 4800"
    by (simp add: TeleopPeriodic_target position_control_button1 [OF p])
  have c: "Set_calls (fst (TeleopPeriodic f hw r)) = [(Position, Finite 4800)]"
    by (simp add: TeleopPeriodic_Set_calls position_control_button1 [OF p])
  from t c show ?thesis
    unfolding presets by simp
qed

theorem C2_button1_preset_witness:
  "pressed1 (sample_hw (Finite 1) True False False 0) (Robot_new (Finite (- 7)))
   \<and> targetPositionRotations
       (snd (TeleopPeriodic (\<lambda>x. []) (sample_hw (Finite 1) True False False 0)
          (Robot_new (Finite (- 7))))) = Finite 4800
   \<and> Set_calls (fst (TeleopPeriodic (\<lambda>x. []) (sample_hw (Finite 1) True False False 0)
        (Robot_new (Finite (- 7)))))
       = [(Position, Finite 4800)]"
  using C2_button1_preset [of "sample_hw (Finite 1) True False False 0" "Robot_new (Finite (- 7))"
      "\<lambda>x. []"]
  by (simp add: pressed1_def sample_hw_def Robot_new_def double_eval)

text \<open>
  Claim C3. A tick sends at most one command, chosen in the order button 1, button 2,
  button 3, joystick. When buttons 1 and 2 are both newly pressed, the one command is
  4800 (not 9600) and the target becomes 4800.
\<close>

theorem C3_priority:
  "Set_calls (fst (TeleopPeriodic f hw r)) =
     (if pressed1 hw r then [(Position, Finite 4800)]
      else if pressed2 hw r then [(Position, Finite 9600)]
      else if pressed3 hw r then [(Position, Finite 14400)]
      else if dgreater (abs_double (leftYstick hw)) (round_double 0.01) then
        [(Position,
          if dgreater (dsub (targetPositionRotations r) (double_of_int 50))
               (double_of_int (GetSelectedSensorPosition_line118 hw))
             \<or> dgreater (double_of_int (GetSelectedSensorPosition_line118 hw))
                 (dadd (targetPositionRotations r) (double_of_int 50))
          then dadd (dmul (leftYstick hw) (double_of_int 150))
                 (double_of_int (GetSelectedSensorPosition_line118 hw))
          else dadd (dmul (leftYstick hw) (double_of_int 150)) (targetPositionRotations r))]
      else [])
   \<and> length (Set_calls (fst (TeleopPeriodic f hw r))) \<le> 1
   \<and> (pressed1 hw r \<and> pressed2 hw r \<longrightarrow>
        Set_calls (fst (TeleopPeriodic f hw r)) = [(Position, Finite 4800)]
        \<and> targetPositionRotations (snd (TeleopPeriodic f hw r)) = Finite 4800)"
  by (simp add: TeleopPeriodic_target TeleopPeriodic_Set_calls position_control_cases)

theorem C3_priority_witness:
  "pressed1 (sample_hw (Finite 0) True True False 0) (Robot_new (Finite 0))
   \<and> pressed2 (sample_hw (Finite 0) True True False 0) (Robot_new (Finite 0))
   \<and> Set_calls (fst (TeleopPeriodic (\<lambda>x. []) (sample_hw (Finite 0) True True False 0)
        (Robot_new (Finite 0))))
       = [(Position, Finite 4800)]
   \<and> targetPositionRotations
       (snd (TeleopPeriodic (\<lambda>x. []) (sample_hw (Finite 0) True True False 0)
          (Robot_new (Finite 0)))) = Finite 4800"
  using C3_priority [of "\<lambda>x. []" "sample_hw (Finite 0) True True False 0" "Robot_new (Finite 0)"]
  by (simp add: pressed1_def pressed2_def sample_hw_def Robot_new_def)

text \<open>
  Claim C4. In a tick where no button is newly pressed and \<open>leftYstick\<close> lies strictly
  between \<open>-0.01\<close> and \<open>0.01\<close>, no command is sent and the target keeps its value. A tick
  changes the target only when a button is newly pressed or \<open>abs(leftYstick) > 0.01\<close>.
\<close>

theorem C4_deadband:
  "(\<not> pressed1 hw r \<and> \<not> pressed2 hw r \<and> \<not> pressed3 hw r
      \<and> dless (round_double (- 0.01)) (leftYstick hw)
      \<and> dless (leftYstick hw) (round_double 0.01) \<longrightarrow>
      Set_calls (fst (TeleopPeriodic f hw r)) = []
      \<and> targetPositionRotations (snd (TeleopPeriodic f hw r)) = targetPositionRotations r)
   \<and> (targetPositionRotations (snd (TeleopPeriodic f hw r)) \<noteq> targetPositionRotations r \<longrightarrow>
        pressed1 hw r \<or> pressed2 hw r \<or> pressed3 hw r
        \<or> dgreater (abs_double (leftYstick hw)) (round_double 0.01))"
proof (intro conjI impI)
  assume a: "\<not> pressed1 hw r \<and> \<not> pressed2 hw r \<and> \<not> pressed3 hw r
      \<and> dless (round_double (- 0.01)) (leftYstick hw)
      \<and> dless (leftYstick hw) (round_double 0.01)"
  then have "\<not> dgreater (abs_double (leftYstick hw)) (round_double 0.01)"
    using at_rest_inside [of "leftYstick hw"] by blast
  with a have pc: "position_control hw r = ([], r)"
    by (simp add: position_control_at_rest)
  show "Set_calls (fst (TeleopPeriodic f hw r)) = []"
    by (simp add: TeleopPeriodic_Set_calls pc)
  show "targetPositionRotations (snd (TeleopPeriodic f hw r)) = targetPositionRotations r"
    by (simp add: TeleopPeriodic_target pc)
next
  assume changed: "targetPositionRotations (snd (TeleopPeriodic f hw r)) \<noteq> targetPositionRotations r"
  show "pressed1 hw r \<or> pressed2 hw r \<or> pressed3 hw r
        \<or> dgreater (abs_double (leftYstick hw)) (round_double 0.01)"
  proof (rule ccontr)
    assume "\<not> (pressed1 hw r \<or> pressed2 hw r \<or> pressed3 hw r
        \<or> dgreater (abs_double (leftYstick hw)) (round_double 0.01))"
    then have "position_control hw r = ([], r)"
      by (simp add: position_control_at_rest)
    with changed show False
      by (simp add: TeleopPeriodic_target)
  qed
qed

theorem C4_deadband_witness:
  "Set_calls (fst (TeleopPeriodic (\<lambda>x. []) (sample_hw (Finite (1 / 128)) False False False 30)
      (Robot_new (Finite 1000))))
     = []
   \<and> targetPositionRotations
       (snd (TeleopPeriodic (\<lambda>x. []) (sample_hw (Finite (1 / 128)) False False False 30)
          (Robot_new (Finite 1000))))
     = Finite 1000
   \<and> targetPositionRotations
       (snd (TeleopPeriodic (\<lambda>x. []) (sample_hw (Finite 0) False False True 30)
          (Robot_new (Finite 1000))))
     \<noteq> targetPositionRotations (Robot_new (Finite 1000))
   \<and> pressed3 (sample_hw (Finite 0) False False True 30) (Robot_new (Finite 1000))"
proof -
  let ?idle = "sample_hw (Finite (1 / 128)) False False False 30"
  let ?b3 = "sample_hw (Finite 0) False False True 30"
  let ?r = "Robot_new (Finite 1000)"
  have idle: "\<not> pressed1 ?idle ?r \<and> \<not> pressed2 ?idle ?r \<and> \<not> pressed3 ?idle ?r
      \<and> dless (round_double (- 0.01)) (leftYstick ?idle)
      \<and> dless (leftYstick ?idle) (round_double 0.01)"
    unfolding leftYstick_sample literal_0_01
    by (simp add: pressed1_def pressed2_def pressed3_def sample_hw_def Robot_new_def)
  have p3: "pressed3 ?b3 ?r" and p12: "\<not> pressed1 ?b3 ?r" "\<not> pressed2 ?b3 ?r"
    by (simp_all add: pressed1_def pressed2_def pressed3_def sample_hw_def Robot_new_def)
  have changed: "targetPositionRotations (snd (TeleopPeriodic (\<lambda>x. []) ?b3 ?r))
      \<noteq> targetPositionRotations ?r"
    by (simp add: TeleopPeriodic_target position_control_button3 [OF p12 p3] Robot_new_simps)
  from C4_deadband [of ?idle ?r "\<lambda>x. []"] idle
  have "Set_calls (fst (TeleopPeriodic (\<lambda>x. []) ?idle ?r)) = []"
    and "targetPositionRotations (snd (TeleopPeriodic (\<lambda>x. []) ?idle ?r)) = targetPositionRotations ?r"
    by blast+
  moreover have "targetPositionRotations ?r = Finite 1000"
    by (simp add: Robot_new_simps)
  moreover from C4_deadband [of ?b3 ?r "\<lambda>x. []"] changed
  have "pressed1 ?b3 ?r \<or> pressed2 ?b3 ?r \<or> pressed3 ?b3 ?r
      \<or> dgreater (abs_double (leftYstick ?b3)) (round_double 0.01)"
    by blast
  ultimately show ?thesis
    using changed p3 by simp
qed

text \<open>
  Claim C5. Two ticks. In the first, button 2 is newly pressed (and button 1 is not): the
  target becomes 9600 and is sent. In the second, buttons 1 to 3 are up, \<open>leftYstick\<close> is
  \<open>0.5\<close> and the position read is 9600, inside the window: the target becomes
  \<open>0.5 * 150 + 9600 = 9675\<close> and is sent.
\<close>

theorem C5_preset_then_joystick:
  "\<not> lastButton2 r \<Longrightarrow> GetRawButton_2 hw1 \<Longrightarrow> \<not> pressed1 hw1 r \<Longrightarrow>
   \<not> GetRawButton_1 hw2 \<Longrightarrow> \<not> GetRawButton_2 hw2 \<Longrightarrow> \<not> GetRawButton_3 hw2 \<Longrightarrow>
   leftYstick hw2 = Finite 0.5 \<Longrightarrow> GetSelectedSensorPosition_line118 hw2 = 9600 \<Longrightarrow>
   targetPositionRotations (snd (teleop f [hw1] r)) = Finite 9600
   \<and> targetPositionRotations (snd (teleop f [hw1, hw2] r)) = Finite 9675
   \<and> map Set_calls (fst (teleop f [hw1, hw2] r))
       = [[(Position, Finite 9600)], [(Position, Finite 9675)]]"
proof -
  assume a: "\<not> lastButton2 r" "GetRawButton_2 hw1" "\<not> pressed1 hw1 r"
    and b: "\<not> GetRawButton_1 hw2" "\<not> GetRawButton_2 hw2" "\<not> GetRawButton_3 hw2"
    and y: "leftYstick hw2 = Finite 0.5" and pos: "GetSelectedSensorPosition_line118 hw2 = 9600"
  let ?r1 = "snd (TeleopPeriodic f hw1 r)"
  from a have p2: "pressed2 hw1 r" by (simp add: pressed2_def)
  have pc1: "position_control hw1 r =
      ([(Position, Finite 9600)], r\<lparr>targetPositionRotations := Finite 9600\<rparr>)"
    using a(3) p2 by (rule position_control_button2)
  have t1: "targetPositionRotations ?r1 = Finite 9600"
    by (simp add: TeleopPeriodic_target pc1)
  have c1: "Set_calls (fst (TeleopPeriodic f hw1 r)) = [(Position, Finite 9600)]"
    by (simp add: TeleopPeriodic_Set_calls pc1)
  have n: "\<not> pressed1 hw2 ?r1" "\<not> pressed2 hw2 ?r1" "\<not> pressed3 hw2 ?r1"
    using b by (simp_all add: pressed1_def pressed2_def pressed3_def)
  have moving: "dgreater (abs_double (leftYstick hw2)) (round_double 0.01)"
    unfolding y literal_0_01 dgreater_def by simp
  have inside: "\<not> (dgreater (dsub (targetPositionRotations ?r1) (double_of_int 50))
          (double_of_int (GetSelectedSensorPosition_line118 hw2))
     \<or> dgreater (double_of_int (GetSelectedSensorPosition_line118 hw2))
          (dadd (targetPositionRotations ?r1) (double_of_int 50)))"
    unfolding t1 pos by (simp add: double_eval)
  have pc2: "position_control hw2 ?r1 =
     ([(Position, dadd (dmul (leftYstick hw2) (double_of_int 150)) (targetPositionRotations ?r1))],
      ?r1\<lparr>targetPositionRotations :=
            dadd (dmul (leftYstick hw2) (double_of_int 150)) (targetPositionRotations ?r1)\<rparr>)"
    using n moving inside by (rule position_control_accumulate)
  have sum: "dadd (dmul (leftYstick hw2) (double_of_int 150)) (targetPositionRotations ?r1)
      = Finite 9675"
    unfolding y t1 by (simp add: double_eval)
  have t2: "targetPositionRotations (snd (TeleopPeriodic f hw2 ?r1)) = Finite 9675"
    unfolding TeleopPeriodic_target [of f hw2 ?r1] pc2 sum by simp
  have c2: "Set_calls (fst (TeleopPeriodic f hw2 ?r1)) = [(Position, Finite 9675)]"
    unfolding TeleopPeriodic_Set_calls [of f hw2 ?r1] pc2 sum by simp
  show ?thesis
    by (simp only: teleop_one teleop_two fst_conv snd_conv list.map t1 t2 c1 c2 simp_thms)
qed

theorem C5_preset_then_joystick_witness:
  "targetPositionRotations
     (snd (teleop (\<lambda>x. []) [sample_hw (Finite 0) False True False 0] (Robot_new (Finite 0))))
     = Finite 9600
   \<and> targetPositionRotations
       (snd (teleop (\<lambda>x. [])
              [sample_hw (Finite 0) False True False 0,
               sample_hw (Finite (- 0.5)) False False False 9600]
              (Robot_new (Finite 0))))
     = Finite 9675
   \<and> map Set_calls
       (fst (teleop (\<lambda>x. [])
              [sample_hw (Finite 0) False True False 0,
               sample_hw (Finite (- 0.5)) False False False 9600]
              (Robot_new (Finite 0))))
     = [[(Position, Finite 9600)], [(Position, Finite 9675)]]"
proof -
  let ?hw1 = "sample_hw (Finite 0) False True False 0"
  let ?hw2 = "sample_hw (Finite (- 0.5)) False False False 9600"
  let ?r = "Robot_new (Finite 0)"
  have a: "\<not> lastButton2 ?r" "GetRawButton_2 ?hw1" "\<not> pressed1 ?hw1 ?r"
    and b: "\<not> GetRawButton_1 ?hw2" "\<not> GetRawButton_2 ?hw2" "\<not> GetRawButton_3 ?hw2"
    and pos: "GetSelectedSensorPosition_line118 ?hw2 = 9600"
    by (simp_all add: pressed1_def sample_hw_def Robot_new_def)
  have y: "leftYstick ?hw2 = Finite 0.5"
    by (rule leftYstick_sample)
  show ?thesis
    by (rule C5_preset_then_joystick [OF a b y pos])
qed

text \<open>
  Claim C6, as amended. Two ticks with the same device answers, no button newly pressed
  and \<open>leftYstick == 0\<close>: the target and the three saved flags after the second tick are
  those after the first, the target is the one before the first tick, and neither tick
  sends a command. When moreover the saved flags already equal the buttons (no edge,
  rising or falling), the target and the flags after both ticks are those before them.
\<close>

theorem C6_idempotence:
  "\<not> pressed1 hw r \<Longrightarrow> \<not> pressed2 hw r \<Longrightarrow> \<not> pressed3 hw r \<Longrightarrow>
   dequal (leftYstick hw) (Finite 0) \<Longrightarrow>
   arbiter_state (snd (teleop f [hw, hw] r)) = arbiter_state (snd (teleop f [hw] r))
   \<and> targetPositionRotations (snd (teleop f [hw, hw] r)) = targetPositionRotations r
   \<and> map Set_calls (fst (teleop f [hw, hw] r)) = [[], []]
   \<and> (lastButton1 r = GetRawButton_1 hw \<and> lastButton2 r = GetRawButton_2 hw
        \<and> lastButton3 r = GetRawButton_3 hw \<longrightarrow>
        arbiter_state (snd (teleop f [hw, hw] r)) = arbiter_state r)"
proof -
  assume n: "\<not> pressed1 hw r" "\<not> pressed2 hw r" "\<not> pressed3 hw r"
    and y: "dequal (leftYstick hw) (Finite 0)"
  let ?r1 = "snd (TeleopPeriodic f hw r)"
  from y have rest: "\<not> dgreater (abs_double (leftYstick hw)) (round_double 0.01)"
    by (rule at_rest_zero)
  have pc1: "position_control hw r = ([], r)"
    using n rest by (rule position_control_at_rest)
  have pc2: "position_control hw ?r1 = ([], ?r1)"
    using pressed_after_same rest by (rule position_control_at_rest)
  have t1: "targetPositionRotations ?r1 = targetPositionRotations r"
    by (simp add: TeleopPeriodic_target pc1)
  have t2: "targetPositionRotations (snd (TeleopPeriodic f hw ?r1)) = targetPositionRotations r"
    by (simp add: TeleopPeriodic_target [of f hw ?r1] pc2 t1)
  have c: "Set_calls (fst (TeleopPeriodic f hw r)) = []"
    "Set_calls (fst (TeleopPeriodic f hw ?r1)) = []"
    by (simp_all add: TeleopPeriodic_Set_calls pc1 pc2)
  show ?thesis
    by (simp add: teleop_one teleop_two arbiter_state_def TeleopPeriodic_lastButtons t1 t2 c
        del: teleop.simps)
qed

theorem C6_idempotence_witness:
  "arbiter_state (snd (teleop (\<lambda>x. []) [sample_hw (Finite 0) False False False 0]
       ((Robot_new (Finite 300))\<lparr>lastButton1 := True\<rparr>)))
     = (Finite 300, False, False, False)
   \<and> arbiter_state
       (snd (teleop (\<lambda>x. [])
              [sample_hw (Finite 0) False False False 0, sample_hw (Finite 0) False False False 0]
              ((Robot_new (Finite 300))\<lparr>lastButton1 := True\<rparr>)))
     = (Finite 300, False, False, False)
   \<and> arbiter_state
       (snd (teleop (\<lambda>x. [])
              [sample_hw (Finite 0) False False False 0, sample_hw (Finite 0) False False False 0]
              (Robot_new (Finite 300))))
     = arbiter_state (Robot_new (Finite 300))"
proof -
  let ?hw = "sample_hw (Finite 0) False False False 0"
  let ?held = "(Robot_new (Finite 300))\<lparr>lastButton1 := True\<rparr>"
  have held: "\<not> pressed1 ?hw ?held" "\<not> pressed2 ?hw ?held" "\<not> pressed3 ?hw ?held"
    and fresh: "\<not> pressed1 ?hw (Robot_new (Finite 300))" "\<not> pressed2 ?hw (Robot_new (Finite 300))"
      "\<not> pressed3 ?hw (Robot_new (Finite 300))"
    and same: "lastButton1 (Robot_new (Finite 300)) = GetRawButton_1 ?hw
      \<and> lastButton2 (Robot_new (Finite 300)) = GetRawButton_2 ?hw
      \<and> lastButton3 (Robot_new (Finite 300)) = GetRawButton_3 ?hw"
    by (simp_all add: pressed1_def pressed2_def pressed3_def sample_hw_def Robot_new_def)
  have centred: "dequal (leftYstick ?hw) (Finite 0)"
    unfolding leftYstick_sample dequal_def is_zero_def by simp
  from centred have rest: "\<not> dgreater (abs_double (leftYstick ?hw)) (round_double 0.01)"
    by (rule at_rest_zero)
  have one: "arbiter_state (snd (teleop (\<lambda>x. []) [?hw] ?held)) = (Finite 300, False, False, False)"
    by (simp add: teleop_one arbiter_state_def TeleopPeriodic_lastButtons TeleopPeriodic_target
        position_control_at_rest [OF held rest] del: teleop.simps)
      (simp add: sample_hw_def Robot_new_def)
  from C6_idempotence [OF held centred, of "\<lambda>x. []"] one
  have two: "arbiter_state (snd (teleop (\<lambda>x. []) [?hw, ?hw] ?held))
      = (Finite 300, False, False, False)"
    by simp
  from C6_idempotence [OF fresh centred, of "\<lambda>x. []"] same
  have three: "arbiter_state (snd (teleop (\<lambda>x. []) [?hw, ?hw] (Robot_new (Finite 300))))
     = arbiter_state (Robot_new (Finite 300))"
    by blast
  from one two three show ?thesis by blast
qed

text \<open>
  Claim C6 as written asks that the target and the saved flags after the two ticks be
  those before them whenever no button goes from up to down. A button that was down and
  is now up is such a case, and the first tick clears its flag.
\<close>

theorem C6_released_button_counterexample:
  "\<not> pressed1 (sample_hw (Finite 0) False False False 0)
       ((Robot_new (Finite 300))\<lparr>lastButton1 := True\<rparr>)
   \<and> \<not> pressed2 (sample_hw (Finite 0) False False False 0)
       ((Robot_new (Finite 300))\<lparr>lastButton1 := True\<rparr>)
   \<and> \<not> pressed3 (sample_hw (Finite 0) False False False 0)
       ((Robot_new (Finite 300))\<lparr>lastButton1 := True\<rparr>)
   \<and> dequal (leftYstick (sample_hw (Finite 0) False False False 0)) (Finite 0)
   \<and> arbiter_state ((Robot_new (Finite 300))\<lparr>lastButton1 := True\<rparr>)
       = (Finite 300, True, False, False)
   \<and> arbiter_state
        (snd (teleop (\<lambda>x. [])
               [sample_hw (Finite 0) False False False 0, sample_hw (Finite 0) False False False 0]
               ((Robot_new (Finite 300))\<lparr>lastButton1 := True\<rparr>)))
       = (Finite 300, False, False, False)
   \<and> arbiter_state
        (snd (teleop (\<lambda>x. [])
               [sample_hw (Finite 0) False False False 0, sample_hw (Finite 0) False False False 0]
               ((Robot_new (Finite 300))\<lparr>lastButton1 := True\<rparr>)))
       \<noteq> arbiter_state ((Robot_new (Finite 300))\<lparr>lastButton1 := True\<rparr>)"
proof -
  let ?hw = "sample_hw (Finite 0) False False False 0"
  let ?held = "(Robot_new (Finite 300))\<lparr>lastButton1 := True\<rparr>"
  let ?r1 = "snd (TeleopPeriodic (\<lambda>x. []) ?hw ?held)"
  have held: "\<not> pressed1 ?hw ?held" "\<not> pressed2 ?hw ?held" "\<not> pressed3 ?hw ?held"
    and before: "arbiter_state ?held = (Finite 300, True, False, False)"
    by (simp_all add: pressed1_def pressed2_def pressed3_def arbiter_state_def
        sample_hw_def Robot_new_def)
  have centred: "dequal (leftYstick ?hw) (Finite 0)"
    unfolding leftYstick_sample dequal_def is_zero_def by simp
  from centred have rest: "\<not> dgreater (abs_double (leftYstick ?hw)) (round_double 0.01)"
    by (rule at_rest_zero)
  have pc1: "position_control ?hw ?held = ([], ?held)"
    using held rest by (rule position_control_at_rest)
  have pc2: "position_control ?hw ?r1 = ([], ?r1)"
    using pressed_after_same rest by (rule position_control_at_rest)
  have t1: "targetPositionRotations ?r1 = Finite 300"
    by (simp add: TeleopPeriodic_target pc1) (simp add: Robot_new_def)
  have t2: "targetPositionRotations (snd (TeleopPeriodic (\<lambda>x. []) ?hw ?r1)) = Finite 300"
    by (simp add: TeleopPeriodic_target [of "\<lambda>x. []" ?hw ?r1] pc2 t1)
  have after: "arbiter_state (snd (teleop (\<lambda>x. []) [?hw, ?hw] ?held))
      = (Finite 300, False, False, False)"
    by (simp add: teleop_two arbiter_state_def TeleopPeriodic_lastButtons t2 del: teleop.simps)
      (simp add: sample_hw_def)
  from held centred before after show ?thesis by simp
qed

text \<open>
  Claim C7. After any tick the three saved flags hold the button values read in that
  tick, whichever branch ran.
\<close>

theorem C7_buttons_saved:
  "lastButton1 (snd (TeleopPeriodic f hw r)) = GetRawButton_1 hw
   \<and> lastButton2 (snd (TeleopPeriodic f hw r)) = GetRawButton_2 hw
   \<and> lastButton3 (snd (TeleopPeriodic f hw r)) = GetRawButton_3 hw"
  by (simp add: TeleopPeriodic_lastButtons)

theorem C7_buttons_saved_witness:
  "lastButton1 (snd (TeleopPeriodic (\<lambda>x. []) (sample_hw (Finite 0) True False True 0)
      (Robot_new (Finite 0))))
   \<and> \<not> lastButton2 (snd (TeleopPeriodic (\<lambda>x. []) (sample_hw (Finite 0) True False True 0)
      (Robot_new (Finite 0))))
   \<and> lastButton3 (snd (TeleopPeriodic (\<lambda>x. []) (sample_hw (Finite 0) True False True 0)
      (Robot_new (Finite 0))))"
  using C7_buttons_saved [of "\<lambda>x. []" "sample_hw (Finite 0) True False True 0" "Robot_new (Finite 0)"]
  by (simp add: sample_hw_def)

text \<open>
  Claim C8. Starting with the counter at 0 and the line buffer empty (as in a new
  object), the counter after \<open>n\<close> ticks is \<open>n mod 10\<close>, and tick number \<open>k + 1\<close> prints
  exactly when \<open>k + 1\<close> is a multiple of 10, one line: the motor output and the position,
  followed by the closed-loop error and the target of that tick exactly when the
  controller reports position mode in that tick.
\<close>

theorem C8_telemetry_every_ten:
  "loops r = 0 \<Longrightarrow> sb r = [] \<Longrightarrow> k < length hws \<Longrightarrow>
   loops (snd (teleop f (take k hws) r)) = int (k mod 10)
   \<and> loops (snd (teleop f (take (Suc k) hws) r)) = int (Suc k mod 10)
   \<and> printf_lines (fst (teleop f hws r) ! k) =
       (if Suc k mod 10 = 0 then
          [CHR 0x09 # ''out right: '' @ f (GetMotorOutputPercent (hws ! k))
             @ CHR 0x09 # ''pos right: '' @ to_string_int (GetSelectedSensorPosition_line91 (hws ! k))
             @ (if GetControlMode (hws ! k) = Position then
                  CHR 0x09 # ''errNative: '' @ to_string_int (GetClosedLoopError (hws ! k))
                    @ CHR 0x09 # ''trg: ''
                    @ f (targetPositionRotations (snd (teleop f (take (Suc k) hws) r)))
                else [])]
        else [])"
proof -
  assume start: "loops r = 0" and empty: "sb r = []" and k: "k < length hws"
  let ?before = "snd (teleop f (take k hws) r)"
  from k have len: "length (take k hws) = k" "length (take (Suc k) hws) = Suc k" by simp_all
  have before: "loops ?before = int (k mod 10)"
    using teleop_loops [of r f "take k hws"] start len by (simp add: zmod_int)
  have after: "loops (snd (teleop f (take (Suc k) hws) r)) = int (Suc k mod 10)"
    using teleop_loops [of r f "take (Suc k) hws"] start len by (simp add: zmod_int)
  have sb: "sb ?before = []"
    using empty by (rule teleop_sb)
  have tenth: "(loops ?before + 1 \<ge> 10) = (Suc k mod 10 = 0)"
    unfolding before by presburger
  have "printf_lines (fst (teleop f hws r) ! k) =
      printf_lines (fst (TeleopPeriodic f (hws ! k) ?before))"
    using k by (simp add: teleop_nth)
  then have lines: "printf_lines (fst (teleop f hws r) ! k) =
       (if Suc k mod 10 = 0 then
          [CHR 0x09 # ''out right: '' @ f (GetMotorOutputPercent (hws ! k))
             @ CHR 0x09 # ''pos right: '' @ to_string_int (GetSelectedSensorPosition_line91 (hws ! k))
             @ (if GetControlMode (hws ! k) = Position then
                  CHR 0x09 # ''errNative: '' @ to_string_int (GetClosedLoopError (hws ! k))
                    @ CHR 0x09 # ''trg: ''
                    @ f (targetPositionRotations (snd (teleop f (take (Suc k) hws) r)))
                else [])]
        else [])"
    by (simp only: TeleopPeriodic_printf_lines tenth sb teleop_take_Suc [OF k] append_Nil)
  from before after lines show ?thesis by blast
qed

theorem C8_telemetry_every_ten_witness:
  "printf_lines (fst (teleop (\<lambda>x. ''d'') (replicate 10 (sample_hw (Finite 0) False False False 5)) (Robot_new (Finite 0))) ! 9)
     = [CHR 0x09 # ''out right: d'' @ CHR 0x09 # ''pos right: 5'' @ CHR 0x09 # ''errNative: 0''
          @ CHR 0x09 # ''trg: d'']
   \<and> printf_lines
       (fst (teleop (\<lambda>x. ''d'') (replicate 10 ((sample_hw (Finite 0) False False False 5)\<lparr>GetControlMode := PercentOutput\<rparr>))
          (Robot_new (Finite 0))) ! 9)
     = [CHR 0x09 # ''out right: d'' @ CHR 0x09 # ''pos right: 5'']
   \<and> printf_lines (fst (teleop (\<lambda>x. ''d'') (replicate 10 (sample_hw (Finite 0) False False False 5)) (Robot_new (Finite 0))) ! 8)
     = []
   \<and> loops (snd (teleop (\<lambda>x. ''d'') (take 10 (replicate 10 (sample_hw (Finite 0) False False False 5))) (Robot_new (Finite 0))))
     = 0"
  using C8_telemetry_every_ten [of "Robot_new (Finite 0)" 9 "replicate 10 (sample_hw (Finite 0) False False False 5)" "\<lambda>x. ''d''"]
    C8_telemetry_every_ten [of "Robot_new (Finite 0)" 9
      "replicate 10 ((sample_hw (Finite 0) False False False 5)\<lparr>GetControlMode := PercentOutput\<rparr>)" "\<lambda>x. ''d''"]
    C8_telemetry_every_ten [of "Robot_new (Finite 0)" 8 "replicate 10 (sample_hw (Finite 0) False False False 5)" "\<lambda>x. ''d''"]
  by (simp add: Robot_new_def sample_hw_def to_string_int_examples del: teleop.simps replicate.simps take_replicate)

text \<open>
  Claim C9. The value of button 4 changes nothing: two ticks whose device answers differ
  in button 4 only send the same commands, print the same and leave the same object.
\<close>

theorem C9_button4_unused:
  "TeleopPeriodic f (hw\<lparr>GetRawButton_4 := b\<rparr>) r = TeleopPeriodic f hw r"
  by (simp add: TeleopPeriodic_unfold blocks_button4)

theorem C9_button4_unused_witness:
  "TeleopPeriodic (\<lambda>x. []) ((sample_hw (Finite (- 0.5)) False False False 0)\<lparr>GetRawButton_4 := True\<rparr>)
     (Robot_new (Finite 0))
   = TeleopPeriodic (\<lambda>x. []) (sample_hw (Finite (- 0.5)) False False False 0) (Robot_new (Finite 0))
   \<and> GetRawButton_4 ((sample_hw (Finite (- 0.5)) False False False 0)\<lparr>GetRawButton_4 := True\<rparr>)
     \<noteq> GetRawButton_4 (sample_hw (Finite (- 0.5)) False False False 0)"
  using C9_button4_unused [where f = "\<lambda>x. []" and hw = "sample_hw (Finite (- 0.5)) False False False 0"
      and b = True and r = "Robot_new (Finite 0)"]
  by (simp add: sample_hw_def)

text \<open>
  Claim C10. Nothing gives \<open>targetPositionRotations\<close> a value before the first tick:
  after \<^verbatim>\<open>RobotInit\<close> it still holds the value \<open>t0\<close> the object was created with. In a
  first tick with no button pressed and \<open>abs(leftYstick) > 0.01\<close>, the window test and the
  command sent are computed from \<open>t0\<close>, and two values of \<open>t0\<close> give different commands for
  the same device answers. A first tick in which a button is pressed does not depend on
  \<open>t0\<close>.
\<close>

theorem C10_target_not_initialised:
  "targetPositionRotations (snd (RobotInit kPIDLoopIdx kTimeoutMs (Robot_new t0))) = t0
   \<and> (\<not> pressed1 hw (Robot_new t0) \<and> \<not> pressed2 hw (Robot_new t0) \<and> \<not> pressed3 hw (Robot_new t0)
        \<and> dgreater (abs_double (leftYstick hw)) (round_double 0.01) \<longrightarrow>
        Set_calls (fst (TeleopPeriodic f hw (snd (RobotInit kPIDLoopIdx kTimeoutMs (Robot_new t0))))) =
          [(Position,
            if dgreater (dsub t0 (double_of_int 50))
                 (double_of_int (GetSelectedSensorPosition_line118 hw))
               \<or> dgreater (double_of_int (GetSelectedSensorPosition_line118 hw))
                   (dadd t0 (double_of_int 50))
            then dadd (dmul (leftYstick hw) (double_of_int 150))
                   (double_of_int (GetSelectedSensorPosition_line118 hw))
            else dadd (dmul (leftYstick hw) (double_of_int 150)) t0)])
   \<and> (\<exists>hw0 a b.
        Set_calls (fst (TeleopPeriodic f hw0 (snd (RobotInit kPIDLoopIdx kTimeoutMs (Robot_new a)))))
        \<noteq> Set_calls (fst (TeleopPeriodic f hw0 (snd (RobotInit kPIDLoopIdx kTimeoutMs (Robot_new b))))))
   \<and> (GetRawButton_1 hw \<or> GetRawButton_2 hw \<or> GetRawButton_3 hw \<longrightarrow>
        TeleopPeriodic f hw (snd (RobotInit kPIDLoopIdx kTimeoutMs (Robot_new t0)))
        = TeleopPeriodic f hw (snd (RobotInit kPIDLoopIdx kTimeoutMs (Robot_new t0'))))"
proof (intro conjI impI)
  show "targetPositionRotations (snd (RobotInit kPIDLoopIdx kTimeoutMs (Robot_new t0))) = t0"
    by (simp add: RobotInit_object Robot_new_simps)
next
  assume "\<not> pressed1 hw (Robot_new t0) \<and> \<not> pressed2 hw (Robot_new t0) \<and> \<not> pressed3 hw (Robot_new t0)
        \<and> dgreater (abs_double (leftYstick hw)) (round_double 0.01)"
  then show "Set_calls (fst (TeleopPeriodic f hw (snd (RobotInit kPIDLoopIdx kTimeoutMs (Robot_new t0))))) =
          [(Position,
            if dgreater (dsub t0 (double_of_int 50))
                 (double_of_int (GetSelectedSensorPosition_line118 hw))
               \<or> dgreater (double_of_int (GetSelectedSensorPosition_line118 hw))
                   (dadd t0 (double_of_int 50))
            then dadd (dmul (leftYstick hw) (double_of_int 150))
                   (double_of_int (GetSelectedSensorPosition_line118 hw))
            else dadd (dmul (leftYstick hw) (double_of_int 150)) t0)]"
    by (simp add: RobotInit_object TeleopPeriodic_Set_calls position_control_commands
        position_control_target Robot_new_simps)
next
  let ?hw = "sample_hw (Finite (- 0.5)) False False False 0"
  have "Set_calls (fst (TeleopPeriodic f ?hw (Robot_new (Finite 0)))) = [(Position, Finite 75)]"
    "Set_calls (fst (TeleopPeriodic f ?hw (Robot_new (Finite 10)))) = [(Position, Finite 85)]"
    by (simp_all add: TeleopPeriodic_Set_calls position_control_commands position_control_target
        Robot_new_simps pressed1_def pressed2_def pressed3_def leftYstick_def sample_hw_def
        double_eval)
  then have "Set_calls (fst (TeleopPeriodic f ?hw (snd (RobotInit kPIDLoopIdx kTimeoutMs (Robot_new (Finite 0))))))
        \<noteq> Set_calls (fst (TeleopPeriodic f ?hw (snd (RobotInit kPIDLoopIdx kTimeoutMs (Robot_new (Finite 10))))))"
    by (simp add: RobotInit_object)
  then show "\<exists>hw0 a b.
        Set_calls (fst (TeleopPeriodic f hw0 (snd (RobotInit kPIDLoopIdx kTimeoutMs (Robot_new a)))))
        \<noteq> Set_calls (fst (TeleopPeriodic f hw0 (snd (RobotInit kPIDLoopIdx kTimeoutMs (Robot_new b)))))"
    by blast
next
  assume "GetRawButton_1 hw \<or> GetRawButton_2 hw \<or> GetRawButton_3 hw"
  then show "TeleopPeriodic f hw (snd (RobotInit kPIDLoopIdx kTimeoutMs (Robot_new t0)))
        = TeleopPeriodic f hw (snd (RobotInit kPIDLoopIdx kTimeoutMs (Robot_new t0')))"
    by (simp only: RobotInit_object first_tick_preset)
qed

theorem C10_target_not_initialised_witness:
  "Set_calls (fst (TeleopPeriodic (\<lambda>x. []) (sample_hw (Finite (- 0.5)) False False False 0)
      (snd (RobotInit 0 10 (Robot_new (Finite 0)))))) = [(Position, Finite 75)]
   \<and> Set_calls (fst (TeleopPeriodic (\<lambda>x. []) (sample_hw (Finite (- 0.5)) False False False 0)
      (snd (RobotInit 0 10 (Robot_new (Finite 10)))))) = [(Position, Finite 85)]
   \<and> Set_calls (fst (TeleopPeriodic (\<lambda>x. []) (sample_hw (Finite (- 0.5)) False False False 0)
      (snd (RobotInit 0 10 (Robot_new NaN))))) = [(Position, NaN)]
   \<and> TeleopPeriodic (\<lambda>x. []) (sample_hw (Finite (- 0.5)) False True False 0)
       (snd (RobotInit 0 10 (Robot_new (Finite 0))))
     = TeleopPeriodic (\<lambda>x. []) (sample_hw (Finite (- 0.5)) False True False 0)
         (snd (RobotInit 0 10 (Robot_new (Finite 10))))"
  using
    C10_target_not_initialised [of 0 10 "Finite 0" "sample_hw (Finite (- 0.5)) False False False 0"
      "\<lambda>x. []" "Finite 10"]
    C10_target_not_initialised [of 0 10 "Finite 10" "sample_hw (Finite (- 0.5)) False False False 0"
      "\<lambda>x. []" "Finite 0"]
    C10_target_not_initialised [of 0 10 NaN "sample_hw (Finite (- 0.5)) False False False 0"
      "\<lambda>x. []" "Finite 0"]
    C10_target_not_initialised [of 0 10 "Finite 0" "sample_hw (Finite (- 0.5)) False True False 0"
      "\<lambda>x. []" "Finite 10"]
  by (simp add: pressed1_def pressed2_def pressed3_def leftYstick_def sample_hw_def Robot_new_simps
      double_eval)

end
